theory Spec2Isabelle
  imports Main "HOL-Library.Word" "HOL-Library.Sublist"
begin

section \<open>The node server of the secret operator's CSI driver\<close>

text \<open>
  A shallow embedding of \<^verbatim>\<open>internal/csi/node.go\<close>. The functions of the node server
  (\<^verbatim>\<open>NodePublishVolume\<close>, \<^verbatim>\<open>updatePod\<close>, \<^verbatim>\<open>writeData\<close>, \<^verbatim>\<open>mount\<close>,
  \<^verbatim>\<open>NodeUnpublishVolume\<close>, \<^verbatim>\<open>validateNodePublishVolumeRequest\<close>) are translated
  statement by statement. Everything they call outside the file (the Go standard library,
  the Kubernetes mount utilities, the cluster client) acts on an explicit \<open>world\<close>: the
  node's file system and mount table, the cluster's objects, and the log of the calls made
  so far. Whether such a call fails is decided by the environment, as a function of that log
  and of the call.
\<close>

subsection \<open>Errors\<close>

text \<open>The status codes of \<^verbatim>\<open>google.golang.org/grpc/codes\<close>.\<close>

datatype codes =
    OK | Canceled | Unknown | InvalidArgument | DeadlineExceeded | NotFound
  | AlreadyExists | PermissionDenied | ResourceExhausted | FailedPrecondition
  | Aborted | OutOfRange | Unimplemented | Internal | Unavailable | DataLoss
  | Unauthenticated

text \<open>
  The two sentinel errors of \<^verbatim>\<open>strconv\<close>, and the reasons of a Kubernetes API status
  error that matter here.
\<close>

datatype num_err = ErrSyntax | ErrRange

datatype api_reason = ReasonNotFound | ReasonConflict | ReasonOther

text \<open>
  A Go \<^verbatim>\<open>error\<close> value: \<^verbatim>\<open>errors.New(msg)\<close> and the errors of the operating system
  (\<open>ErrorString\<close>), \<^verbatim>\<open>*strconv.NumError{Func, Num, Err}\<close>, and the status error of the
  cluster API with its reason.
\<close>

datatype go_error =
    ErrorString string
  | NumError string string num_err
  | APIStatusError api_reason string

text \<open>
  The message of a gRPC status is either a literal of the source or the text
  \<^verbatim>\<open>err.Error()\<close> of an error; the latter is kept as the error it is rendered from.
  \<open>Status c m\<close> is \<^verbatim>\<open>status.Error(c, m)\<close>.
\<close>

datatype message = Text string | ErrorText go_error

datatype status = Status codes message

fun code :: "status \<Rightarrow> codes" where
  "code (Status c m) = c"

subsection \<open>\<^verbatim>\<open>strconv\<close>: decimal 64-bit integers\<close>

text \<open>
  \<^verbatim>\<open>strconv.ParseUint(s, 10, 64)\<close>. The loop reads the bytes of \<open>s\<close> from the left with
  the accumulator \<open>n\<close>, an unsigned 64-bit integer. A byte that is not a decimal digit is a
  syntax error (in base 10 a letter is a digit value of at least ten, which the loop rejects
  as a syntax error as well). \<open>cutoff\<close> is \<^verbatim>\<open>maxUint64/10 + 1\<close>: at or above it the
  product overflows. The sum \<^verbatim>\<open>n1 := n + d\<close> may wrap around, which the test
  \<^verbatim>\<open>n1 < n\<close> detects. On a range error the result is \<^verbatim>\<open>maxVal\<close>.
\<close>

definition isDigit :: "char \<Rightarrow> bool" where
  "isDigit c = ((48::nat) \<le> of_char c \<and> (of_char c :: nat) \<le> 57)"

definition digitVal :: "char \<Rightarrow> 64 word" where
  "digitVal c = of_nat (of_char c - 48)"

definition maxUint64 :: "64 word" where
  "maxUint64 = - 1"

fun ParseUint_loop :: "string \<Rightarrow> 64 word \<Rightarrow> 64 word \<times> num_err option" where
  "ParseUint_loop [] n = (n, None)"
| "ParseUint_loop (c # cs) n =
     (if \<not> isDigit c then (0, Some ErrSyntax)
      else if n \<ge> maxUint64 div 10 + 1 then (maxUint64, Some ErrRange)
      else (let n' = n * 10; n1 = n' + digitVal c
            in if n1 < n' \<or> n1 > maxUint64 then (maxUint64, Some ErrRange)
               else ParseUint_loop cs n1))"

definition ParseUint :: "string \<Rightarrow> 64 word \<times> num_err option" where
  "ParseUint s = (if s = [] then (0, Some ErrSyntax) else ParseUint_loop s 0)"

text \<open>
  \<^verbatim>\<open>strconv.ParseInt(s, 10, 64)\<close>: an optional sign, then \<^verbatim>\<open>ParseUint\<close>; a syntax error
  is returned at once, a range error of \<^verbatim>\<open>ParseUint\<close> falls through to the range test
  against \<open>2 ^ 63\<close>; the value is \<^verbatim>\<open>int64(un)\<close>, negated after a minus sign.
\<close>

definition ParseInt :: "string \<Rightarrow> go_error + 64 word" where
  "ParseInt s0 =
     (if s0 = [] then Inl (NumError ''ParseInt'' s0 ErrSyntax)
      else
        (let neg = (hd s0 = CHR ''-'');
             s = (if hd s0 = CHR ''+'' \<or> hd s0 = CHR ''-'' then tl s0 else s0);
             (un, err) = ParseUint s;
             cutoff = (push_bit 63 1 :: 64 word)
         in if err \<noteq> None \<and> err \<noteq> Some ErrRange then Inl (NumError ''ParseInt'' s0 ErrSyntax)
            else if \<not> neg \<and> un \<ge> cutoff then Inl (NumError ''ParseInt'' s0 ErrRange)
            else if neg \<and> un > cutoff then Inl (NumError ''ParseInt'' s0 ErrRange)
            else Inr (if neg then - un else un)))"

text \<open>
  \<^verbatim>\<open>strconv.FormatInt(i, 10)\<close>: the decimal digits of the magnitude, most significant
  first, after a minus sign when \<open>i\<close> is negative.
\<close>

function decimal :: "int \<Rightarrow> string" where
  "decimal n = (if n < 10 then [char_of (48 + n)] else decimal (n div 10) @ [char_of (48 + n mod 10)])"
  by pat_completeness auto
termination
  by (relation "measure nat") auto

declare decimal.simps [simp del]

definition FormatInt :: "64 word \<Rightarrow> string" where
  "FormatInt i = (if sint i < 0 then CHR ''-'' # decimal (- sint i) else decimal (sint i))"

subsection \<open>\<^verbatim>\<open>path/filepath\<close> on Unix\<close>

text \<open>
  \<^verbatim>\<open>filepath.Clean\<close> by its documented rules: runs of separators become one, every
  \<^verbatim>\<open>.\<close> element is dropped, an inner \<^verbatim>\<open>..\<close> is dropped with the element before it, a
  \<^verbatim>\<open>..\<close> at the start of a rooted path is dropped, and the empty result is \<^verbatim>\<open>.\<close>.
  \<open>cleanElems\<close> keeps the elements written so far in reverse.
\<close>

fun splitSep :: "string \<Rightarrow> string \<Rightarrow> string list" where
  "splitSep acc [] = [rev acc]"
| "splitSep acc (c # cs) =
     (if c = CHR ''/'' then rev acc # splitSep [] cs else splitSep (c # acc) cs)"

fun joinSep :: "string list \<Rightarrow> string" where
  "joinSep [] = []"
| "joinSep [e] = e"
| "joinSep (e # es) = e @ CHR ''/'' # joinSep es"

fun cleanElems :: "bool \<Rightarrow> string list \<Rightarrow> string list \<Rightarrow> string list" where
  "cleanElems rooted out [] = rev out"
| "cleanElems rooted out (e # es) =
     (if e = [] \<or> e = ''.'' then cleanElems rooted out es
      else if e = ''..'' then
        (case out of
           [] \<Rightarrow> if rooted then cleanElems rooted out es else cleanElems rooted [''..''] es
         | t # ts \<Rightarrow> if t = ''..'' then cleanElems rooted (''..'' # out) es
                     else cleanElems rooted ts es)
      else cleanElems rooted (e # out) es)"

definition Clean :: "string \<Rightarrow> string" where
  "Clean path =
     (if path = [] then ''.''
      else
        (let rooted = (hd path = CHR ''/'');
             out = joinSep (cleanElems rooted [] (splitSep [] path))
         in if rooted then CHR ''/'' # out else if out = [] then ''.'' else out))"

text \<open>
  \<^verbatim>\<open>filepath.Join\<close>: the elements from the first non-empty one on, joined by the
  separator and cleaned; the empty string when there is none.
\<close>

definition Join :: "string list \<Rightarrow> string" where
  "Join elem =
     (case dropWhile (\<lambda>e. e = []) elem of
        [] \<Rightarrow> []
      | es \<Rightarrow> Clean (joinSep es))"

text \<open>
  A cleaned path \<open>q\<close> lies within the directory of the cleaned path \<open>p\<close> when it is \<open>p\<close>
  or continues it after a separator.
\<close>

definition within :: "string \<Rightarrow> string \<Rightarrow> bool" where
  "within p q = (q = p \<or> prefix (if p = ''/'' then p else p @ ''/'') q)"

subsection \<open>Data\<close>

text \<open>
  A Go \<^verbatim>\<open>map[string]string\<close> that the code ranges over is the list of its entries in
  the order the runtime happens to iterate them; its keys are distinct. A map that is only
  looked up and assigned is a partial function. A nil map reads as the empty map.
\<close>

type_synonym go_map = "(string \<times> string) list"

fun len :: "go_map option \<Rightarrow> nat" where
  "len None = 0"
| "len (Some m) = length m"

text \<open>
  The requests of the CSI node service, with the fields the code reads.
  \<^verbatim>\<open>NodePublishVolumeRequest\<close> has the two fields of \<^verbatim>\<open>NodeUnpublishVolumeRequest\<close>
  and more, so it is declared as its extension and the getters \<open>VolumeId\<close> and
  \<open>TargetPath\<close> read both. A field that is a pointer or a map is optional: \<open>None\<close> is nil.
\<close>

datatype VolumeCapability = MountVolume | BlockVolume

record NodeUnpublishVolumeRequest =
  VolumeId :: string
  TargetPath :: string

record NodePublishVolumeRequest = NodeUnpublishVolumeRequest +
  VolumeCapability :: "VolumeCapability option"
  VolumeContext :: "go_map option"

text \<open>
  Modelled from the spec: the types \<^verbatim>\<open>volume.VolumeSelector\<close>,
  \<^verbatim>\<open>secretsv1alpha1.SecretClass\<close>, \<^verbatim>\<open>pod_info.PodInfo\<close> and the backend's secret
  content are declared outside \<^verbatim>\<open>node.go\<close>. The selector carries the secret class name
  and the workload's name and namespace; the secret content is a mapping from file name to
  file body with an optional expiration time, a 64-bit integer; the workload identity view
  combines the workload object and the selector.
\<close>

record VolumeSelector =
  Class :: string
  Pod :: string
  PodNamespace :: string

record SecretClass =
  ClassName :: string
  ClassSpec :: string

record SecretContent =
  Data :: go_map
  ExpiresTime :: "64 word option"

text \<open>
  \<^verbatim>\<open>corev1.Pod\<close>, with the metadata the code reads. \<^verbatim>\<open>Annotations\<close> is only looked
  up and assigned, so it is a partial function, and the nil map is the empty one: the
  \<^verbatim>\<open>make\<close> at the start of \<^verbatim>\<open>updatePod\<close> leaves it as it is.
\<close>

record corev1_Pod =
  Name :: string
  Namespace :: string
  Annotations :: "string \<rightharpoonup> string"

record PodInfo =
  InfoPod :: corev1_Pod
  InfoSelector :: VolumeSelector

definition NewPodInfo :: "corev1_Pod \<Rightarrow> VolumeSelector \<Rightarrow> PodInfo" where
  "NewPodInfo pod volumeSelector = \<lparr>InfoPod = pod, InfoSelector = volumeSelector\<rparr>"

subsection \<open>The world: file system, mount table, cluster, and the log of calls\<close>

datatype node = Dir | File string

text \<open>An entry of the mount table, as \<^verbatim>\<open>mount.MountPoint\<close>.\<close>

record MountPoint =
  Device :: string
  Path :: string
  Type :: string
  Opts :: "string list"

text \<open>
  Every call that leaves the process is logged with its arguments: the calls of \<^verbatim>\<open>os\<close>
  and of the mount utilities with their paths (and permission bits, written in decimal:
  \<open>0750 = 488\<close>, \<open>0644 = 420\<close>), the client's \<^verbatim>\<open>Get\<close> with the object key, and the
  client's \<^verbatim>\<open>Patch\<close> with the namespace and name of the pod.
\<close>

datatype event =
    CallPathExists string
  | CallMkdirAll string nat
  | CallMount string string string "string list"
  | CallUnmount string
  | CallRemoveAll string
  | CallWriteFile string string nat
  | CallGetSecretClass string
  | CallGetPod string string
  | CallPatchPod string string

record world =
  files :: "string \<rightharpoonup> node"
  mounts :: "MountPoint list"
  secretClasses :: "string \<rightharpoonup> SecretClass"
  pods :: "string \<times> string \<rightharpoonup> corev1_Pod"
  trace :: "event list"

text \<open>
  The environment of the node server. \<open>fault\<close> says, from the log so far and the call
  about to be made, whether the operating system or the cluster fails that call, and with
  which error. The other three fields stand for code of the repository outside
  \<^verbatim>\<open>node.go\<close>: the parser of the volume context, the secret backend (which reads the
  world and returns the secret content or an error), and the annotation key
  \<^verbatim>\<open>volume.SecretZncdataExpirationTime\<close>.
\<close>

record env =
  fault :: "event list \<Rightarrow> event \<Rightarrow> go_error option"
  NewVolumeSelectorFromMap :: "go_map option \<Rightarrow> go_error + VolumeSelector"
  GetSecretData :: "PodInfo \<Rightarrow> VolumeSelector \<Rightarrow> SecretClass \<Rightarrow> world \<Rightarrow> go_error + SecretContent"
  SecretZncdataExpirationTime :: string

text \<open>A call is logged, and the environment decides whether it fails.\<close>

definition call :: "env \<Rightarrow> event \<Rightarrow> world \<Rightarrow> go_error option \<times> world" where
  "call E ev w = (fault E (trace w) ev, w\<lparr>trace := trace w @ [ev]\<rparr>)"

subsection \<open>The operating system\<close>

text \<open>
  The file system maps a cleaned path to its node; it has no symbolic links and no working
  directory. A call that fails has no effect on it, \<^verbatim>\<open>os.RemoveAll\<close> on a busy mount
  point apart. Beyond the failures the environment
  injects, a call fails only where stated below.

  \<^verbatim>\<open>mount.PathExists\<close>: whether there is a node at the path, or the error of the lookup.
\<close>

definition PathExists :: "env \<Rightarrow> string \<Rightarrow> world \<Rightarrow> (bool \<times> go_error option) \<times> world" where
  "PathExists E path w =
     (case call E (CallPathExists path) w of
        (Some err, w') \<Rightarrow> ((False, Some err), w')
      | (None, w') \<Rightarrow> ((files w (Clean path) \<noteq> None, None), w'))"

text \<open>
  \<^verbatim>\<open>os.MkdirAll\<close>: a path that is a directory already is left alone; otherwise the
  directory and its missing parents are created. It fails when the path or one of its
  parents is a file. \<open>ancestors\<close> lists the proper parents of a cleaned path, root first.
\<close>

definition ancestors :: "string \<Rightarrow> string list" where
  "ancestors q =
     filter (\<lambda>p. p \<noteq> q)
       (map (\<lambda>i. if i = 0 then ''/'' else take i q)
          (filter (\<lambda>i. q ! i = CHR ''/'') [0..<length q]))"

fun isFile :: "node option \<Rightarrow> bool" where
  "isFile (Some (File c)) = True"
| "isFile _ = False"

fun mkdirs :: "string list \<Rightarrow> (string \<rightharpoonup> node) \<Rightarrow> (string \<rightharpoonup> node)" where
  "mkdirs [] fs = fs"
| "mkdirs (p # ps) fs = mkdirs ps (if fs p = None then fs(p \<mapsto> Dir) else fs)"

definition MkdirAll :: "env \<Rightarrow> string \<Rightarrow> nat \<Rightarrow> world \<Rightarrow> go_error option \<times> world" where
  "MkdirAll E path perm w =
     (case call E (CallMkdirAll path perm) w of
        (Some err, w') \<Rightarrow> (Some err, w')
      | (None, w') \<Rightarrow>
          (if files w (Clean path) = Some Dir then (None, w')
           else if list_ex (\<lambda>p. isFile (files w p)) (ancestors (Clean path) @ [Clean path])
             then (Some (ErrorString ''not a directory''), w')
           else (None, w'\<lparr>files := mkdirs (ancestors (Clean path) @ [Clean path]) (files w)\<rparr>)))"

text \<open>
  \<^verbatim>\<open>mount.Interface.Mount\<close> adds an entry to the mount table. The node server only
  mounts on a directory it has just created, so the model does not represent content that
  a mount hides. \<^verbatim>\<open>Unmount\<close> removes the last entry at the path, and fails when there is
  none.
\<close>

definition Mount :: "env \<Rightarrow> string \<Rightarrow> string \<Rightarrow> string \<Rightarrow> string list \<Rightarrow> world \<Rightarrow> go_error option \<times> world" where
  "Mount E source target fstype options w =
     (case call E (CallMount source target fstype options) w of
        (Some err, w') \<Rightarrow> (Some err, w')
      | (None, w') \<Rightarrow>
          (None, w'\<lparr>mounts := mounts w @
             [\<lparr>Device = source, Path = target, Type = fstype, Opts = options\<rparr>]\<rparr>))"

fun removeLast :: "('a \<Rightarrow> bool) \<Rightarrow> 'a list \<Rightarrow> 'a list" where
  "removeLast P [] = []"
| "removeLast P (x # xs) = (if P x \<and> \<not> list_ex P xs then xs else x # removeLast P xs)"

definition Unmount :: "env \<Rightarrow> string \<Rightarrow> world \<Rightarrow> go_error option \<times> world" where
  "Unmount E target w =
     (case call E (CallUnmount target) w of
        (Some err, w') \<Rightarrow> (Some err, w')
      | (None, w') \<Rightarrow>
          (if list_ex (\<lambda>m. Clean (Path m) = Clean target) (mounts w)
           then (None, w'\<lparr>mounts := removeLast (\<lambda>m. Clean (Path m) = Clean target) (mounts w)\<rparr>)
           else (Some (ErrorString ''not mounted''), w')))"

text \<open>
  \<^verbatim>\<open>os.RemoveAll\<close>: nil for the empty path; an error for a path that ends in a
  \<^verbatim>\<open>.\<close> element, and for a path below a regular file; nil when the path does not
  exist. Otherwise, unless the environment fails the call, it removes everything it can: a
  mount point cannot be removed, so while the mount table has an entry at the path or
  within it, the entries' mount points and the directories that lead to them stay, the
  rest within the path is removed, and the call returns the error of the busy mount point.
  With no such entry the path and everything within it are removed.
\<close>

definition endsWithDot :: "string \<Rightarrow> bool" where
  "endsWithDot path =
     (path = ''.'' \<or>
      (length path \<ge> 2 \<and> path ! (length path - 1) = CHR ''.'' \<and> path ! (length path - 2) = CHR ''/''))"

definition leadsToMount :: "world \<Rightarrow> string \<Rightarrow> bool" where
  "leadsToMount w q = list_ex (\<lambda>m. within q (Clean (Path m))) (mounts w)"

definition RemoveAll :: "env \<Rightarrow> string \<Rightarrow> world \<Rightarrow> go_error option \<times> world" where
  "RemoveAll E path w =
     (case call E (CallRemoveAll path) w of
        (f, w') \<Rightarrow>
          (if path = [] then (None, w')
           else if endsWithDot path then (Some (ErrorString ''invalid argument''), w')
           else if list_ex (\<lambda>p. isFile (files w p)) (ancestors (Clean path))
             then (Some (ErrorString ''not a directory''), w')
           else if files w (Clean path) = None then (None, w')
           else (case f of
                   Some err \<Rightarrow> (Some err, w')
                 | None \<Rightarrow>
                     (if leadsToMount w (Clean path) then
                        (Some (ErrorString ''device or resource busy''),
                         w'\<lparr>files := (\<lambda>q. if within (Clean path) q \<and> \<not> leadsToMount w q
                                            then None else files w q)\<rparr>)
                      else
                        (None, w'\<lparr>files := (\<lambda>q. if within (Clean path) q then None else files w q)\<rparr>)))))"

text \<open>
  \<^verbatim>\<open>os.WriteFile\<close> creates or truncates the file and writes the data; it fails on a
  directory.
\<close>

definition WriteFile :: "env \<Rightarrow> string \<Rightarrow> string \<Rightarrow> nat \<Rightarrow> world \<Rightarrow> go_error option \<times> world" where
  "WriteFile E name content perm w =
     (case call E (CallWriteFile name content perm) w of
        (Some err, w') \<Rightarrow> (Some err, w')
      | (None, w') \<Rightarrow>
          (if files w (Clean name) = Some Dir then (Some (ErrorString ''is a directory''), w')
           else (None, w'\<lparr>files := (files w)(Clean name \<mapsto> File content)\<rparr>)))"

subsection \<open>The cluster client\<close>

text \<open>
  \<^verbatim>\<open>client.Get\<close> for a secret class (cluster scoped, by name) and for a pod (by
  namespace and name): the object, or a not-found status error, or the error the
  environment injects.
\<close>

definition GetSecretClass :: "env \<Rightarrow> string \<Rightarrow> world \<Rightarrow> (go_error + SecretClass) \<times> world" where
  "GetSecretClass E name w =
     (case call E (CallGetSecretClass name) w of
        (Some err, w') \<Rightarrow> (Inl err, w')
      | (None, w') \<Rightarrow>
          (case secretClasses w name of
             None \<Rightarrow> (Inl (APIStatusError ReasonNotFound name), w')
           | Some obj \<Rightarrow> (Inr obj, w')))"

definition GetPod :: "env \<Rightarrow> string \<times> string \<Rightarrow> world \<Rightarrow> (go_error + corev1_Pod) \<times> world" where
  "GetPod E key w =
     (case call E (CallGetPod (fst key) (snd key)) w of
        (Some err, w') \<Rightarrow> (Inl err, w')
      | (None, w') \<Rightarrow>
          (case pods w key of
             None \<Rightarrow> (Inl (APIStatusError ReasonNotFound (snd key)), w')
           | Some obj \<Rightarrow> (Inr obj, w')))"

text \<open>
  \<^verbatim>\<open>client.Patch(ctx, obj, client.MergeFrom(orig))\<close> sends the difference between
  \<open>orig\<close> and \<open>obj\<close> as a merge patch: on the cluster's current object every annotation
  that differs between the two takes the value it has in \<open>obj\<close>, the others stay. The
  updated object is stored and also returned into \<open>obj\<close>.
\<close>

definition mergePatch :: "('k \<rightharpoonup> 'v) \<Rightarrow> ('k \<rightharpoonup> 'v) \<Rightarrow> ('k \<rightharpoonup> 'v) \<Rightarrow> ('k \<rightharpoonup> 'v)" where
  "mergePatch orig obj cur = (\<lambda>k. if orig k = obj k then cur k else obj k)"

definition Patch :: "env \<Rightarrow> corev1_Pod \<Rightarrow> corev1_Pod \<Rightarrow> world \<Rightarrow> go_error option \<times> corev1_Pod \<times> world" where
  "Patch E obj orig w =
     (case call E (CallPatchPod (Namespace obj) (Name obj)) w of
        (Some err, w') \<Rightarrow> (Some err, obj, w')
      | (None, w') \<Rightarrow>
          (case pods w (Namespace obj, Name obj) of
             None \<Rightarrow> (Some (APIStatusError ReasonNotFound (Name obj)), obj, w')
           | Some cur \<Rightarrow>
               (let new = cur\<lparr>Annotations :=
                            mergePatch (Annotations orig) (Annotations obj) (Annotations cur)\<rparr>
                in (None, new, w'\<lparr>pods := (pods w)((Namespace obj, Name obj) \<mapsto> new)\<rparr>))))"

subsection \<open>The node server\<close>

text \<open>
  The receiver \<^verbatim>\<open>n\<close> of the methods holds the mounter and the client; here they are the
  world's mount table and cluster, so the methods take the environment and the world.
  A method that returns \<^verbatim>\<open>error\<close> returns \<open>None\<close> for nil.

  \<^verbatim>\<open>validateNodePublishVolumeRequest\<close>
\<close>

definition validateNodePublishVolumeRequest :: "NodePublishVolumeRequest \<Rightarrow> status option" where
  "validateNodePublishVolumeRequest request =
     (if VolumeId request = [] then
        Some (Status InvalidArgument (Text ''volume ID missing in request''))
      else if TargetPath request = [] then
        Some (Status InvalidArgument (Text ''Target path missing in request''))
      else if VolumeCapability request = None then
        Some (Status InvalidArgument (Text ''Volume capability missing in request''))
      else if VolumeContext request = None \<or> len (VolumeContext request) = 0 then
        Some (Status InvalidArgument (Text ''Volume context missing in request''))
      else None)"

text \<open>
  \<^verbatim>\<open>mount\<close>: the target path must not exist; it is created with mode \<open>0750\<close> and an
  in-memory file system is mounted on it with the options \<^verbatim>\<open>noexec\<close>, \<^verbatim>\<open>nosuid\<close>,
  \<^verbatim>\<open>nodev\<close>.
\<close>

definition mount :: "env \<Rightarrow> string \<Rightarrow> world \<Rightarrow> status option \<times> world" where
  "mount E targetPath w =
     (case PathExists E targetPath w of
        ((exist, Some err), w1) \<Rightarrow> (Some (Status Internal (ErrorText err)), w1)
      | ((exist, None), w1) \<Rightarrow>
          (if exist then
             (Some (Status Internal (ErrorText (ErrorString ''target path already exists''))), w1)
           else
             (case MkdirAll E targetPath 488 w1 of
                (Some err, w2) \<Rightarrow> (Some (Status Internal (ErrorText err)), w2)
              | (None, w2) \<Rightarrow>
                  (let opts = [''noexec'', ''nosuid'', ''nodev'']
                   in case Mount E ''tmpfs'' targetPath ''tmpfs'' opts w2 of
                        (Some err, w3) \<Rightarrow> (Some (Status Internal (ErrorText err)), w3)
                      | (None, w3) \<Rightarrow> (None, w3)))))"

text \<open>
  \<^verbatim>\<open>writeData\<close>: the loop over the entries of the map, in the order of the list; the
  first failing write ends it.
\<close>

fun writeData :: "env \<Rightarrow> string \<Rightarrow> go_map \<Rightarrow> world \<Rightarrow> go_error option \<times> world" where
  "writeData E targetPath [] w = (None, w)"
| "writeData E targetPath ((name, content) # rest) w =
     (let fileName = Join [targetPath, name]
      in case WriteFile E fileName content 420 w of
           (Some err, w') \<Rightarrow> (Some err, w')
         | (None, w') \<Rightarrow> writeData E targetPath rest w')"

text \<open>
  \<^verbatim>\<open>updatePod\<close>. The pod is the caller's copy, which the method changes; it is returned
  with the error. \<open>orig\<close> is the copy the patch is computed from. The comparison of the two
  64-bit integers is signed.
\<close>

definition updatePod :: "env \<Rightarrow> corev1_Pod \<Rightarrow> 64 word option \<Rightarrow> world \<Rightarrow> go_error option \<times> corev1_Pod \<times> world" where
  "updatePod E pod expiresTime w =
     (let orig = pod
      in case expiresTime of
           None \<Rightarrow> (None, pod, w)
         | Some e \<Rightarrow>
             (let found = (Annotations pod (SecretZncdataExpirationTime E) \<noteq> None);
                  existExpiresTimeStr =
                    (case Annotations pod (SecretZncdataExpirationTime E) of None \<Rightarrow> [] | Some s \<Rightarrow> s);
                  pod' = pod\<lparr>Annotations :=
                           (Annotations pod)(SecretZncdataExpirationTime E \<mapsto> FormatInt e)\<rparr>
              in if found \<and> existExpiresTimeStr \<noteq> [] then
                   (case ParseInt existExpiresTimeStr of
                      Inl err \<Rightarrow> (Some err, pod, w)
                    | Inr existExpiresTime \<Rightarrow>
                        if existExpiresTime <s e then (None, pod, w)
                        else Patch E pod' orig w)
                 else Patch E pod' orig w))"

text \<open>\<^verbatim>\<open>NodePublishVolume\<close>\<close>

definition NodePublishVolume :: "env \<Rightarrow> NodePublishVolumeRequest \<Rightarrow> world \<Rightarrow> (status + unit) \<times> world" where
  "NodePublishVolume E request w =
     (case validateNodePublishVolumeRequest request of
        Some err \<Rightarrow> (Inl err, w)
      | None \<Rightarrow>
     (let targetPath = TargetPath request
      in if targetPath = [] then
           (Inl (Status InvalidArgument (Text ''Target path missing in request'')), w)
         else
     (case NewVolumeSelectorFromMap E (VolumeContext request) of
        Inl err \<Rightarrow> (Inl (Status InvalidArgument (ErrorText err)), w)
      | Inr volumeSelector \<Rightarrow>
     (if Class volumeSelector = [] then
        (Inl (Status InvalidArgument (Text ''Secret class name missing in request'')), w)
      else
     (case GetSecretClass E (Class volumeSelector) w of
        (Inl err, w1) \<Rightarrow> (Inl (Status Internal (ErrorText err)), w1)
      | (Inr secretClass, w1) \<Rightarrow>
     (case GetPod E (PodNamespace volumeSelector, Pod volumeSelector) w1 of
        (Inl err, w2) \<Rightarrow> (Inl (Status Internal (ErrorText err)), w2)
      | (Inr pod, w2) \<Rightarrow>
     (let podInfo = NewPodInfo pod volumeSelector
      in case GetSecretData E podInfo volumeSelector secretClass w2 of
           Inl err \<Rightarrow> (Inl (Status Internal (ErrorText err)), w2)
         | Inr secretContent \<Rightarrow>
     (case mount E targetPath w2 of
        (Some err, w3) \<Rightarrow> (Inl err, w3)
      | (None, w3) \<Rightarrow>
     (case writeData E targetPath (Data secretContent) w3 of
        (Some err, w4) \<Rightarrow> (Inl (Status Internal (ErrorText err)), w4)
      | (None, w4) \<Rightarrow>
     (case updatePod E pod (ExpiresTime secretContent) w4 of
        (Some err, pod', w5) \<Rightarrow> (Inl (Status Internal (ErrorText err)), w5)
      | (None, pod', w5) \<Rightarrow> (Inr (), w5)))))))))))"

text \<open>
  \<^verbatim>\<open>NodeUnpublishVolume\<close>: the error of the unmount is logged and dropped; the removal
  of the target path decides the result.
\<close>

definition NodeUnpublishVolume :: "env \<Rightarrow> NodeUnpublishVolumeRequest \<Rightarrow> world \<Rightarrow> (status + unit) \<times> world" where
  "NodeUnpublishVolume E request w =
     (if VolumeId request = [] then
        (Inl (Status InvalidArgument (Text ''Volume ID missing in request'')), w)
      else if TargetPath request = [] then
        (Inl (Status InvalidArgument (Text ''Target path missing in request'')), w)
      else
        (let targetPath = TargetPath request
         in case Unmount E targetPath w of
              (unmountErr, w1) \<Rightarrow>
                (case RemoveAll E targetPath w1 of
                   (Some err, w2) \<Rightarrow> (Inl (Status Internal (ErrorText err)), w2)
                 | (None, w2) \<Rightarrow> (Inr (), w2))))"

text \<open>
  \<^verbatim>\<open>NodeStageVolume\<close> and \<^verbatim>\<open>NodeUnstageVolume\<close> check the fields of their request and
  do nothing else; the request is given here by the fields the method reads.
  \<^verbatim>\<open>NodeGetVolumeStats\<close> and \<^verbatim>\<open>NodeExpandVolume\<close> answer every request with the
  unimplemented status and the empty message.
\<close>

definition NodeStageVolume :: "string \<Rightarrow> string \<Rightarrow> VolumeCapability option \<Rightarrow> status + unit" where
  "NodeStageVolume volumeId stagingTargetPath volumeCapability =
     (if length volumeId = 0 then
        Inl (Status InvalidArgument (Text ''Volume ID missing in request''))
      else if length stagingTargetPath = 0 then
        Inl (Status InvalidArgument (Text ''Staging target path missing in request''))
      else if volumeCapability = None then
        Inl (Status InvalidArgument (Text ''Volume capability missing in request''))
      else Inr ())"

definition NodeUnstageVolume :: "string \<Rightarrow> string \<Rightarrow> status + unit" where
  "NodeUnstageVolume volumeId stagingTargetPath =
     (if length volumeId = 0 then
        Inl (Status InvalidArgument (Text ''Volume ID missing in request''))
      else if length stagingTargetPath = 0 then
        Inl (Status InvalidArgument (Text ''Staging target path missing in request''))
      else Inr ())"

definition NodeGetVolumeStats :: "'request \<Rightarrow> status + 'response" where
  "NodeGetVolumeStats request = Inl (Status Unimplemented (Text []))"

definition NodeExpandVolume :: "'request \<Rightarrow> status + 'response" where
  "NodeExpandVolume request = Inl (Status Unimplemented (Text []))"

subsection \<open>Observations on a run\<close>

text \<open>
  The calls in the log that change the file system or the mount table, those that mount,
  those that write a file, and those that write to the cluster.
\<close>

fun isFsWrite :: "event \<Rightarrow> bool" where
  "isFsWrite (CallMkdirAll p m) = True"
| "isFsWrite (CallMount s t f os) = True"
| "isFsWrite (CallUnmount t) = True"
| "isFsWrite (CallRemoveAll p) = True"
| "isFsWrite (CallWriteFile n c m) = True"
| "isFsWrite _ = False"

fun isMountCall :: "event \<Rightarrow> bool" where
  "isMountCall (CallMount s t f os) = True"
| "isMountCall _ = False"


fun isPatchCall :: "event \<Rightarrow> bool" where
  "isPatchCall (CallPatchPod ns n) = True"
| "isPatchCall _ = False"

definition fsWrites :: "world \<Rightarrow> event list" where
  "fsWrites w = filter isFsWrite (trace w)"

definition mountCalls :: "world \<Rightarrow> event list" where
  "mountCalls w = filter isMountCall (trace w)"


definition patchCalls :: "world \<Rightarrow> event list" where
  "patchCalls w = filter isPatchCall (trace w)"

text \<open>
  The steps of \<^verbatim>\<open>NodePublishVolume\<close> before the mount, collected: the request is valid,
  the selector is parsed and names a secret class, the secret class and the pod are
  fetched, and the backend returns the secret content. The result is the pod, the content
  and the world at that point, or \<open>None\<close> when one of the steps fails.
\<close>

definition secretResolved :: "env \<Rightarrow> NodePublishVolumeRequest \<Rightarrow> world \<Rightarrow> (corev1_Pod \<times> SecretContent \<times> world) option" where
  "secretResolved E request w =
     (if validateNodePublishVolumeRequest request \<noteq> None then None
      else case NewVolumeSelectorFromMap E (VolumeContext request) of
        Inl err \<Rightarrow> None
      | Inr volumeSelector \<Rightarrow>
          if Class volumeSelector = [] then None
          else case GetSecretClass E (Class volumeSelector) w of
            (Inl err, w1) \<Rightarrow> None
          | (Inr secretClass, w1) \<Rightarrow>
              (case GetPod E (PodNamespace volumeSelector, Pod volumeSelector) w1 of
                 (Inl err, w2) \<Rightarrow> None
               | (Inr pod, w2) \<Rightarrow>
                   (case GetSecretData E (NewPodInfo pod volumeSelector) volumeSelector secretClass w2 of
                      Inl err \<Rightarrow> None
                    | Inr secretContent \<Rightarrow> Some (pod, secretContent, w2))))"

text \<open>
  The error a lookup of the cluster client returns for an object that does not exist: the
  error the environment injects into the call, or else the client's not-found error.
\<close>

definition lookupError :: "env \<Rightarrow> event list \<Rightarrow> event \<Rightarrow> string \<Rightarrow> go_error" where
  "lookupError E log ev name =
     (case fault E log ev of Some err \<Rightarrow> err | None \<Rightarrow> APIStatusError ReasonNotFound name)"


subsection \<open>An example node\<close>

text \<open>
  A concrete environment and world for running the model: a selector parser that reads the
  keys named in the comments of \<^verbatim>\<open>NodePublishVolume\<close>, a backend that returns two files
  and a given expiration time, an environment that fails the calls listed in \<open>bad\<close> and no
  other, and a cluster with one secret class and one pod with given annotations.
\<close>

definition lookupOr :: "go_map \<Rightarrow> string \<Rightarrow> string" where
  "lookupOr m k = (case map_of m k of None \<Rightarrow> [] | Some v \<Rightarrow> v)"

definition exampleSelector :: "go_map option \<Rightarrow> go_error + VolumeSelector" where
  "exampleSelector ctx =
     (case ctx of
        None \<Rightarrow> Inl (ErrorString ''no volume context'')
      | Some m \<Rightarrow>
          Inr \<lparr>Class = lookupOr m ''secrets.zncdata.dev/class'',
               Pod = lookupOr m ''csi.storage.k8s.io/pod.name'',
               PodNamespace = lookupOr m ''csi.storage.k8s.io/pod.namespace''\<rparr>)"

definition exampleEnv :: "event list \<Rightarrow> 64 word option \<Rightarrow> env" where
  "exampleEnv bad expires =
     \<lparr>fault = (\<lambda>log ev. if ev \<in> set bad then Some (ErrorString ''input/output error'') else None),
      NewVolumeSelectorFromMap = exampleSelector,
      GetSecretData = (\<lambda>info sel cls w. Inr \<lparr>Data = [(''a'', ''x''), (''b'', ''y'')], ExpiresTime = expires\<rparr>),
      SecretZncdataExpirationTime = ''secrets.zncdata.dev/expirationTime''\<rparr>"

definition examplePod :: "(string \<rightharpoonup> string) \<Rightarrow> corev1_Pod" where
  "examplePod ann = \<lparr>Name = ''web'', Namespace = ''default'', Annotations = ann\<rparr>"

definition exampleWorld :: "(string \<rightharpoonup> string) \<Rightarrow> world" where
  "exampleWorld ann =
     \<lparr>files = [''/'' \<mapsto> Dir, ''/mnt'' \<mapsto> Dir],
      mounts = [],
      secretClasses = [''tls'' \<mapsto> \<lparr>ClassName = ''tls'', ClassSpec = ''autoTls''\<rparr>],
      pods = [(''default'', ''web'') \<mapsto> examplePod ann],
      trace = []\<rparr>"

definition exampleRequest :: NodePublishVolumeRequest where
  "exampleRequest =
     \<lparr>VolumeId = ''vol-1'', TargetPath = ''/mnt/v1'',
      VolumeCapability = Some MountVolume,
      VolumeContext = Some [(''secrets.zncdata.dev/class'', ''tls''),
                            (''csi.storage.k8s.io/pod.name'', ''web''),
                            (''csi.storage.k8s.io/pod.namespace'', ''default'')]\<rparr>"

definition exampleUnpublish :: NodeUnpublishVolumeRequest where
  "exampleUnpublish = \<lparr>VolumeId = ''vol-1'', TargetPath = ''/mnt/v1''\<rparr>"

section \<open>Properties\<close>

subsection \<open>The calls and what they leave alone\<close>

lemma snd_GetSecretClass [simp]:
  "snd (GetSecretClass E name w) = w\<lparr>trace := trace w @ [CallGetSecretClass name]\<rparr>"
  by (auto simp: GetSecretClass_def call_def split: option.splits)

lemma snd_GetPod [simp]:
  "snd (GetPod E key w) = w\<lparr>trace := trace w @ [CallGetPod (fst key) (snd key)]\<rparr>"
  by (auto simp: GetPod_def call_def split: option.splits)

lemma mkdirs_apply:
  "mkdirs ps fs q = (if q \<in> set ps \<and> fs q = None then Some Dir else fs q)"
  by (induction ps arbitrary: fs) auto

lemma validate_None_TargetPath:
  "validateNodePublishVolumeRequest request = None \<Longrightarrow> TargetPath request \<noteq> []"
  by (auto simp: validateNodePublishVolumeRequest_def split: if_splits)

lemma validate_Some_code:
  "validateNodePublishVolumeRequest request = Some s \<Longrightarrow> code s = InvalidArgument"
  by (auto simp: validateNodePublishVolumeRequest_def split: if_splits)

lemma mount_exists:
  assumes "files w (Clean targetPath) \<noteq> None"
  shows "\<exists>m. mount E targetPath w =
           (Some (Status Internal m), w\<lparr>trace := trace w @ [CallPathExists targetPath]\<rparr>)"
  using assms by (auto simp: mount_def PathExists_def call_def split: option.splits)

lemma mount_error_code:
  "fst (mount E targetPath w) = Some s \<Longrightarrow> code s = Internal"
  by (auto simp: mount_def case_prod_beta Let_def split: option.splits if_splits prod.splits)


lemma mount_ok:
  assumes "mount E targetPath w = (None, w')"
  shows "mounts w' = mounts w @
           [\<lparr>Device = ''tmpfs'', Path = targetPath, Type = ''tmpfs'',
             Opts = [''noexec'', ''nosuid'', ''nodev'']\<rparr>]"
    and "mountCalls w' = mountCalls w @
           [CallMount ''tmpfs'' targetPath ''tmpfs'' [''noexec'', ''nosuid'', ''nodev'']]"
    and "files w (Clean targetPath) = None"
    and "files w' (Clean targetPath) = Some Dir"
  using assms
  by (auto simp: mount_def PathExists_def MkdirAll_def Mount_def call_def mountCalls_def Let_def
                 mkdirs_apply
           split: option.splits if_splits prod.splits)

lemma writeData_frame:
  "mounts (snd (writeData E targetPath data w)) = mounts w \<and>
   pods (snd (writeData E targetPath data w)) = pods w \<and>
   mountCalls (snd (writeData E targetPath data w)) = mountCalls w \<and>
   patchCalls (snd (writeData E targetPath data w)) = patchCalls w"
proof (induction data arbitrary: w)
  case Nil
  show ?case by simp
next
  case (Cons entry rest)
  obtain name content where entry: "entry = (name, content)" by (cases entry)
  show ?case
    using Cons.IH
    by (auto simp: entry WriteFile_def call_def mountCalls_def patchCalls_def Let_def
             split: option.splits prod.splits)
qed

lemma Patch_frame:
  "files (snd (snd (Patch E obj orig w))) = files w"
  "mounts (snd (snd (Patch E obj orig w))) = mounts w"
  "mountCalls (snd (snd (Patch E obj orig w))) = mountCalls w"
  by (auto simp: Patch_def call_def mountCalls_def Let_def split: option.splits)

lemma updatePod_frame:
  "files (snd (snd (updatePod E pod expiresTime w))) = files w"
  "mounts (snd (snd (updatePod E pod expiresTime w))) = mounts w"
  "mountCalls (snd (snd (updatePod E pod expiresTime w))) = mountCalls w"
  by (auto simp: updatePod_def Patch_frame Let_def split: option.splits sum.splits)

subsection \<open>The stages of a publish\<close>

lemma secretResolved_world:
  assumes "secretResolved E request w = Some (pod, c, w2)"
  shows "files w2 = files w" "mounts w2 = mounts w" "pods w2 = pods w"
        "mountCalls w2 = mountCalls w" "patchCalls w2 = patchCalls w"
        "fsWrites w2 = fsWrites w"
  using assms
  by (auto simp: secretResolved_def mountCalls_def patchCalls_def fsWrites_def case_prod_beta
           split: if_splits sum.splits)

lemma NodePublishVolume_resolved:
  assumes "secretResolved E request w = Some (pod, secretContent, w2)"
  shows "NodePublishVolume E request w =
     (case mount E (TargetPath request) w2 of
        (Some err, w3) \<Rightarrow> (Inl err, w3)
      | (None, w3) \<Rightarrow>
     (case writeData E (TargetPath request) (Data secretContent) w3 of
        (Some err, w4) \<Rightarrow> (Inl (Status Internal (ErrorText err)), w4)
      | (None, w4) \<Rightarrow>
     (case updatePod E pod (ExpiresTime secretContent) w4 of
        (Some err, pod', w5) \<Rightarrow> (Inl (Status Internal (ErrorText err)), w5)
      | (None, pod', w5) \<Rightarrow> (Inr (), w5))))"
  using assms validate_None_TargetPath [of request]
  by (auto simp: secretResolved_def NodePublishVolume_def Let_def case_prod_beta
           split: if_splits sum.splits)

lemma NodePublishVolume_unresolved:
  assumes "secretResolved E request w = None"
  shows "\<exists>s w'. NodePublishVolume E request w = (Inl s, w') \<and>
           (code s = InvalidArgument \<or> code s = Internal) \<and>
           files w' = files w \<and> mounts w' = mounts w \<and> pods w' = pods w \<and>
           mountCalls w' = mountCalls w \<and> patchCalls w' = patchCalls w \<and>
           fsWrites w' = fsWrites w"
  using assms validate_None_TargetPath [of request]
  by (auto simp: secretResolved_def NodePublishVolume_def Let_def mountCalls_def patchCalls_def
                 fsWrites_def case_prod_beta
           split: if_splits sum.splits
           dest!: validate_Some_code)

lemma NodePublishVolume_success:
  assumes "fst (NodePublishVolume E request w) = Inr ()"
  shows "\<exists>pod secretContent w2 w3 w4 pod' w5.
           secretResolved E request w = Some (pod, secretContent, w2) \<and>
           mount E (TargetPath request) w2 = (None, w3) \<and>
           writeData E (TargetPath request) (Data secretContent) w3 = (None, w4) \<and>
           updatePod E pod (ExpiresTime secretContent) w4 = (None, pod', w5) \<and>
           snd (NodePublishVolume E request w) = w5"
proof -
  obtain pod secretContent w2 where
    res: "secretResolved E request w = Some (pod, secretContent, w2)"
    using assms NodePublishVolume_unresolved [of E request w]
    by (cases "secretResolved E request w") auto
  note npv = NodePublishVolume_resolved [OF res]
  obtain r3 w3 where m: "mount E (TargetPath request) w2 = (r3, w3)" by force
  obtain r4 w4 where wd: "writeData E (TargetPath request) (Data secretContent) w3 = (r4, w4)"
    by force
  obtain r5 p5 w5 where up: "updatePod E pod (ExpiresTime secretContent) w4 = (r5, p5, w5)"
    by (metis prod_cases3)
  from assms npv m wd up have "r3 = None" "r4 = None" "r5 = None"
    and "snd (NodePublishVolume E request w) = w5"
    by (auto split: option.splits)
  with res m wd up show ?thesis by blast
qed

subsection \<open>The example node, evaluated\<close>

lemma Clean_example:
  "Clean ''/mnt/v1'' = ''/mnt/v1''"
  "Clean ''/mnt/v1/a'' = ''/mnt/v1/a''"
  "Clean ''/mnt/v1/b'' = ''/mnt/v1/b''"
  by code_simp+

lemma ancestors_example: "ancestors ''/mnt/v1'' = [''/'', ''/mnt'']"
  by code_simp

lemmas example_defs =
  exampleEnv_def exampleRequest_def exampleWorld_def examplePod_def exampleSelector_def
  exampleUnpublish_def lookupOr_def

lemmas call_defs =
  validateNodePublishVolumeRequest_def GetSecretClass_def GetPod_def call_def NewPodInfo_def
  mount_def PathExists_def MkdirAll_def Mount_def Unmount_def RemoveAll_def WriteFile_def
  Join_def updatePod_def Patch_def Let_def

lemma example_fault:
  "fault (exampleEnv bad expires) log ev =
     (if ev \<in> set bad then Some (ErrorString ''input/output error'') else None)"
  by (simp add: exampleEnv_def)

lemma example_resolved:
  "secretResolved (exampleEnv bad expires) exampleRequest (exampleWorld ann) =
   Some (examplePod ann, \<lparr>Data = [(''a'', ''x''), (''b'', ''y'')], ExpiresTime = expires\<rparr>,
         (exampleWorld ann)\<lparr>trace := [CallGetSecretClass ''tls'', CallGetPod ''default'' ''web'']\<rparr>)"
  if "CallGetSecretClass ''tls'' \<notin> set bad" "CallGetPod ''default'' ''web'' \<notin> set bad"
  using that by (simp add: secretResolved_def example_defs call_defs)

lemma example_publish:
  "fst (NodePublishVolume (exampleEnv [] None) exampleRequest (exampleWorld Map.empty)) = Inr ()"
  by (simp add: NodePublishVolume_def example_defs call_defs Clean_example ancestors_example)

subsection \<open>Request validation\<close>

text \<open>
  Claim C3. A publish request whose volume id or target path is empty, whose volume
  capability is missing, or whose volume context is nil or empty, is answered with an
  invalid-argument status, and the world after the call is the world before it: no file
  system call, no cluster call, nothing logged.
\<close>

theorem invalid_request_rejected_without_effect:
  assumes "VolumeId request = [] \<or> TargetPath request = [] \<or> VolumeCapability request = None
           \<or> VolumeContext request = None \<or> VolumeContext request = Some []"
  shows "\<exists>m. NodePublishVolume E request w = (Inl (Status InvalidArgument m), w)"
  using assms by (auto simp: NodePublishVolume_def validateNodePublishVolumeRequest_def)

theorem invalid_request_rejected_without_effect_witness:
  "VolumeContext (exampleRequest\<lparr>VolumeContext := Some []\<rparr>) = Some [] \<and>
   (\<exists>m. NodePublishVolume (exampleEnv [] None) (exampleRequest\<lparr>VolumeContext := Some []\<rparr>)
          (exampleWorld Map.empty)
        = (Inl (Status InvalidArgument m), exampleWorld Map.empty))"
proof -
  have h: "VolumeContext (exampleRequest\<lparr>VolumeContext := Some []\<rparr>) = Some []" by simp
  then have "VolumeId (exampleRequest\<lparr>VolumeContext := Some []\<rparr>) = []
      \<or> TargetPath (exampleRequest\<lparr>VolumeContext := Some []\<rparr>) = []
      \<or> VolumeCapability (exampleRequest\<lparr>VolumeContext := Some []\<rparr>) = None
      \<or> VolumeContext (exampleRequest\<lparr>VolumeContext := Some []\<rparr>) = None
      \<or> VolumeContext (exampleRequest\<lparr>VolumeContext := Some []\<rparr>) = Some []"
    by simp
  from invalid_request_rejected_without_effect [OF this] h show ?thesis by blast
qed

subsection \<open>The mount\<close>

text \<open>
  Claim C4. When the target path exists already, \<^verbatim>\<open>mount\<close> fails with an internal error
  after the existence check alone, and \<^verbatim>\<open>NodePublishVolume\<close> fails: with an internal
  error whenever the steps before the mount succeed. The files, the mount table and the log
  of file system changes are as before the call: no directory is created, nothing is
  mounted, no file is written.
\<close>

theorem existing_target_path_fails_unchanged:
  assumes "files w (Clean (TargetPath request)) \<noteq> None"
  shows "(\<exists>m. mount E (TargetPath request) w =
            (Some (Status Internal m), w\<lparr>trace := trace w @ [CallPathExists (TargetPath request)]\<rparr>))
       \<and> (\<exists>s. fst (NodePublishVolume E request w) = Inl s)
       \<and> (secretResolved E request w \<noteq> None \<longrightarrow>
            (\<exists>m. fst (NodePublishVolume E request w) = Inl (Status Internal m)))
       \<and> files (snd (NodePublishVolume E request w)) = files w
       \<and> mounts (snd (NodePublishVolume E request w)) = mounts w
       \<and> fsWrites (snd (NodePublishVolume E request w)) = fsWrites w"
proof (cases "secretResolved E request w")
  case None
  then show ?thesis
    using NodePublishVolume_unresolved [OF None] mount_exists [OF assms] by auto
next
  case (Some t)
  obtain pod secretContent w2 where t: "t = (pod, secretContent, w2)" by (cases t)
  note res = Some [unfolded t]
  have ex: "files w2 (Clean (TargetPath request)) \<noteq> None"
    using assms secretResolved_world(1) [OF res] by simp
  from mount_exists [OF ex, of E] obtain m where
    "mount E (TargetPath request) w2 =
       (Some (Status Internal m), w2\<lparr>trace := trace w2 @ [CallPathExists (TargetPath request)]\<rparr>)"
    by blast
  then show ?thesis
    using NodePublishVolume_resolved [OF res] secretResolved_world [OF res] mount_exists [OF assms]
    by (simp add: fsWrites_def)
qed

theorem existing_target_path_fails_unchanged_witness:
  "files ((exampleWorld Map.empty)\<lparr>files := [''/mnt/v1'' \<mapsto> File ''old'']\<rparr>)
     (Clean (TargetPath exampleRequest)) \<noteq> None
   \<and> (\<exists>m. fst (NodePublishVolume (exampleEnv [] None) exampleRequest
                ((exampleWorld Map.empty)\<lparr>files := [''/mnt/v1'' \<mapsto> File ''old'']\<rparr>))
          = Inl (Status Internal m))
   \<and> files (snd (NodePublishVolume (exampleEnv [] None) exampleRequest
                ((exampleWorld Map.empty)\<lparr>files := [''/mnt/v1'' \<mapsto> File ''old'']\<rparr>)))
       = [''/mnt/v1'' \<mapsto> File ''old'']"
proof -
  let ?w = "(exampleWorld Map.empty)\<lparr>files := [''/mnt/v1'' \<mapsto> File ''old'']\<rparr>"
  have h: "files ?w (Clean (TargetPath exampleRequest)) \<noteq> None"
    by (simp add: exampleRequest_def Clean_example)
  have r: "secretResolved (exampleEnv [] None) exampleRequest ?w \<noteq> None"
    by (simp add: secretResolved_def example_defs call_defs)
  from existing_target_path_fails_unchanged [OF h, of "exampleEnv [] None"] r h
  show ?thesis by simp
qed

text \<open>
  Claim C6. A publish that succeeds has made exactly one mount call, for the file system
  \<^verbatim>\<open>tmpfs\<close> on the target path of the request with the option list \<^verbatim>\<open>noexec\<close>,
  \<^verbatim>\<open>nosuid\<close>, \<^verbatim>\<open>nodev\<close>, and the mount table has gained that one entry. The option list
  is the same for every request, environment and world.
\<close>

theorem publish_mounts_with_three_options:
  assumes "fst (NodePublishVolume E request w) = Inr ()"
  shows "mounts (snd (NodePublishVolume E request w)) = mounts w @
           [\<lparr>Device = ''tmpfs'', Path = TargetPath request, Type = ''tmpfs'',
             Opts = [''noexec'', ''nosuid'', ''nodev'']\<rparr>]
       \<and> mountCalls (snd (NodePublishVolume E request w)) = mountCalls w @
           [CallMount ''tmpfs'' (TargetPath request) ''tmpfs'' [''noexec'', ''nosuid'', ''nodev'']]"
proof -
  from NodePublishVolume_success [OF assms] obtain pod secretContent w2 w3 w4 pod' w5 where
    res: "secretResolved E request w = Some (pod, secretContent, w2)" and
    m: "mount E (TargetPath request) w2 = (None, w3)" and
    wd: "writeData E (TargetPath request) (Data secretContent) w3 = (None, w4)" and
    up: "updatePod E pod (ExpiresTime secretContent) w4 = (None, pod', w5)" and
    w': "snd (NodePublishVolume E request w) = w5"
    by blast
  have "mounts w5 = mounts w4" "mountCalls w5 = mountCalls w4"
    using updatePod_frame [of E pod "ExpiresTime secretContent" w4] up by simp_all
  moreover have "mounts w4 = mounts w3" "mountCalls w4 = mountCalls w3"
    using writeData_frame [of E "TargetPath request" "Data secretContent" w3] wd by simp_all
  ultimately show ?thesis
    using mount_ok(1,2) [OF m] secretResolved_world(2,4) [OF res] w' by simp
qed

theorem publish_mounts_with_three_options_witness:
  "fst (NodePublishVolume (exampleEnv [] None) exampleRequest (exampleWorld Map.empty)) = Inr ()
   \<and> mounts (snd (NodePublishVolume (exampleEnv [] None) exampleRequest (exampleWorld Map.empty)))
       = [\<lparr>Device = ''tmpfs'', Path = ''/mnt/v1'', Type = ''tmpfs'',
           Opts = [''noexec'', ''nosuid'', ''nodev'']\<rparr>]"
  using publish_mounts_with_three_options [OF example_publish] example_publish
  by (simp add: exampleWorld_def exampleRequest_def)

subsection \<open>The expiration annotation\<close>

text \<open>
  Claim C7. Without a new expiration time \<^verbatim>\<open>updatePod\<close> returns nil and leaves the pod
  and the world as they are: no patch is sent, the cluster's pods and their annotations are
  unchanged, and an expiration key that was unset stays unset.
\<close>

theorem updatePod_without_expiration_is_noop:
  "updatePod E pod None w = (None, pod, w)"
  by (simp add: updatePod_def)

lemma ParseInt_Nil: "ParseInt [] = Inl (NumError ''ParseInt'' [] ErrSyntax)"
  by (simp add: ParseInt_def)

lemma Patch_success:
  assumes "fault E (trace w) (CallPatchPod (Namespace obj) (Name obj)) = None"
      and "pods w (Namespace obj, Name obj) = Some cur"
  shows "Patch E obj orig w =
           (None, cur\<lparr>Annotations := mergePatch (Annotations orig) (Annotations obj) (Annotations cur)\<rparr>,
            w\<lparr>trace := trace w @ [CallPatchPod (Namespace obj) (Name obj)],
              pods := (pods w)((Namespace obj, Name obj) \<mapsto>
                 cur\<lparr>Annotations := mergePatch (Annotations orig) (Annotations obj) (Annotations cur)\<rparr>)\<rparr>)"
  using assms by (simp add: Patch_def call_def Let_def)

lemma Patch_failure:
  assumes "fst (Patch E obj orig w) = Some err"
  shows "fst (snd (Patch E obj orig w)) = obj" "pods (snd (snd (Patch E obj orig w))) = pods w"
  using assms by (auto simp: Patch_def call_def Let_def split: option.splits)

lemma Patch_patchCalls:
  "patchCalls (snd (snd (Patch E obj orig w))) =
     patchCalls w @ [CallPatchPod (Namespace obj) (Name obj)]"
  by (auto simp: Patch_def call_def patchCalls_def Let_def split: option.splits)

lemma updatePod_later:
  assumes "Annotations pod (SecretZncdataExpirationTime E) = Some s" "ParseInt s = Inr e0"
      and "sint e0 < sint e"
  shows "updatePod E pod (Some e) w = (None, pod, w)"
proof -
  have "s \<noteq> []" using assms(2) by (auto simp: ParseInt_Nil)
  then show ?thesis using assms by (simp add: updatePod_def word_sless_alt)
qed

lemma updatePod_sooner:
  assumes "Annotations pod (SecretZncdataExpirationTime E) = None
         \<or> Annotations pod (SecretZncdataExpirationTime E) = Some []
         \<or> (\<exists>s e0. Annotations pod (SecretZncdataExpirationTime E) = Some s \<and> ParseInt s = Inr e0
               \<and> sint e \<le> sint e0)"
  shows "updatePod E pod (Some e) w =
           Patch E (pod\<lparr>Annotations :=
                     (Annotations pod)(SecretZncdataExpirationTime E \<mapsto> FormatInt e)\<rparr>) pod w"
proof -
  have "s \<noteq> []" if "ParseInt s = Inr e0" for s e0
    using that by (auto simp: ParseInt_Nil)
  then show ?thesis
    using assms by (auto simp: updatePod_def word_sless_alt)
qed

text \<open>
  Claim C1. With a new expiration time \<open>e\<close>: when the existing annotation parses as a
  64-bit decimal integer \<open>e0\<close> and \<open>e\<close> is greater, \<^verbatim>\<open>updatePod\<close> returns nil with the
  pod and the world as they were (no patch). When \<open>e\<close> is at most \<open>e0\<close>, or the annotation
  is absent or the empty string, the pod handed to the patch carries the decimal string of
  \<open>e\<close> under the expiration key, and exactly one patch is sent. If the patch fails, the
  caller's pod holds that string and the cluster is unchanged. If the cluster accepts the
  patch and its copy of the pod agrees with the caller's on the expiration key, the call
  returns nil, the annotation of the pod on the cluster is the decimal string of \<open>e\<close>, and
  its other annotations are unchanged.
\<close>

theorem updatePod_keeps_soonest_expiration:
  "(\<forall>s e0. Annotations pod (SecretZncdataExpirationTime E) = Some s \<and> ParseInt s = Inr e0
        \<and> sint e0 < sint e \<longrightarrow> updatePod E pod (Some e) w = (None, pod, w))
   \<and> (Annotations pod (SecretZncdataExpirationTime E) = None
        \<or> Annotations pod (SecretZncdataExpirationTime E) = Some []
        \<or> (\<exists>s e0. Annotations pod (SecretZncdataExpirationTime E) = Some s \<and> ParseInt s = Inr e0
               \<and> sint e \<le> sint e0)
      \<longrightarrow>
        updatePod E pod (Some e) w =
          Patch E (pod\<lparr>Annotations :=
                    (Annotations pod)(SecretZncdataExpirationTime E \<mapsto> FormatInt e)\<rparr>) pod w
      \<and> patchCalls (snd (snd (updatePod E pod (Some e) w))) =
          patchCalls w @ [CallPatchPod (Namespace pod) (Name pod)]
      \<and> (fst (updatePod E pod (Some e) w) \<noteq> None \<longrightarrow>
           Annotations (fst (snd (updatePod E pod (Some e) w))) (SecretZncdataExpirationTime E)
             = Some (FormatInt e)
           \<and> pods (snd (snd (updatePod E pod (Some e) w))) = pods w)
      \<and> (\<forall>cur. fault E (trace w) (CallPatchPod (Namespace pod) (Name pod)) = None
            \<and> pods w (Namespace pod, Name pod) = Some cur
            \<and> Annotations cur (SecretZncdataExpirationTime E)
                = Annotations pod (SecretZncdataExpirationTime E)
          \<longrightarrow>
            fst (updatePod E pod (Some e) w) = None
          \<and> Annotations (fst (snd (updatePod E pod (Some e) w))) (SecretZncdataExpirationTime E)
              = Some (FormatInt e)
          \<and> pods (snd (snd (updatePod E pod (Some e) w))) (Namespace pod, Name pod)
              = Some (fst (snd (updatePod E pod (Some e) w)))
          \<and> (\<forall>k'. k' \<noteq> SecretZncdataExpirationTime E \<longrightarrow>
                Annotations (fst (snd (updatePod E pod (Some e) w))) k' = Annotations cur k')))"
  (is "?later \<and> (?sooner \<longrightarrow> ?patched)")
proof (intro conjI impI allI)
  fix s e0
  assume "Annotations pod (SecretZncdataExpirationTime E) = Some s \<and> ParseInt s = Inr e0
        \<and> sint e0 < sint e"
  then show "updatePod E pod (Some e) w = (None, pod, w)"
    using updatePod_later by blast
next
  assume a: ?sooner
  let ?pod' = "pod\<lparr>Annotations := (Annotations pod)(SecretZncdataExpirationTime E \<mapsto> FormatInt e)\<rparr>"
  note eq = updatePod_sooner [OF a, of w]
  show "updatePod E pod (Some e) w = Patch E ?pod' pod w" by (rule eq)
  show "patchCalls (snd (snd (updatePod E pod (Some e) w))) =
          patchCalls w @ [CallPatchPod (Namespace pod) (Name pod)]"
    using Patch_patchCalls [of E ?pod' pod w] by (simp add: eq)
  {
    assume f: "fst (updatePod E pod (Some e) w) \<noteq> None"
    then obtain err where "fst (Patch E ?pod' pod w) = Some err" by (auto simp: eq)
    from Patch_failure [OF this]
    show "Annotations (fst (snd (updatePod E pod (Some e) w))) (SecretZncdataExpirationTime E)
             = Some (FormatInt e)"
      and "pods (snd (snd (updatePod E pod (Some e) w))) = pods w"
      by (simp_all add: eq)
  }
  {
    fix cur
    assume c: "fault E (trace w) (CallPatchPod (Namespace pod) (Name pod)) = None
            \<and> pods w (Namespace pod, Name pod) = Some cur
            \<and> Annotations cur (SecretZncdataExpirationTime E)
                = Annotations pod (SecretZncdataExpirationTime E)"
    then have p: "Patch E ?pod' pod w =
           (None, cur\<lparr>Annotations := mergePatch (Annotations pod) (Annotations ?pod') (Annotations cur)\<rparr>,
            w\<lparr>trace := trace w @ [CallPatchPod (Namespace pod) (Name pod)],
              pods := (pods w)((Namespace pod, Name pod) \<mapsto>
                 cur\<lparr>Annotations := mergePatch (Annotations pod) (Annotations ?pod') (Annotations cur)\<rparr>)\<rparr>)"
      using Patch_success [of E w ?pod' cur pod] by simp
    show "fst (updatePod E pod (Some e) w) = None" by (simp add: eq p)
    show "Annotations (fst (snd (updatePod E pod (Some e) w))) (SecretZncdataExpirationTime E)
              = Some (FormatInt e)"
      using c by (simp add: eq p mergePatch_def)
    show "pods (snd (snd (updatePod E pod (Some e) w))) (Namespace pod, Name pod)
              = Some (fst (snd (updatePod E pod (Some e) w)))"
      by (simp add: eq p)
    fix k'
    assume "k' \<noteq> SecretZncdataExpirationTime E"
    then show "Annotations (fst (snd (updatePod E pod (Some e) w))) k' = Annotations cur k'"
      by (simp add: eq p mergePatch_def)
  }
qed


lemma strconv_example:
  "ParseInt ''1000'' = Inr 1000"
  "ParseInt ''soon'' = Inl (NumError ''ParseInt'' ''soon'' ErrSyntax)"
  "FormatInt 900 = ''900''"
  "FormatInt 500 = ''500''"
  by code_simp+

theorem updatePod_keeps_soonest_expiration_witness:
  "updatePod (exampleEnv [] None)
      (examplePod [''secrets.zncdata.dev/expirationTime'' \<mapsto> ''1000'']) (Some 1500)
      (exampleWorld [''secrets.zncdata.dev/expirationTime'' \<mapsto> ''1000''])
    = (None, examplePod [''secrets.zncdata.dev/expirationTime'' \<mapsto> ''1000''],
       exampleWorld [''secrets.zncdata.dev/expirationTime'' \<mapsto> ''1000''])
   \<and> Annotations (fst (snd (updatePod (exampleEnv [] None)
        (examplePod [''secrets.zncdata.dev/expirationTime'' \<mapsto> ''1000'']) (Some 900)
        (exampleWorld [''secrets.zncdata.dev/expirationTime'' \<mapsto> ''1000'']))))
        ''secrets.zncdata.dev/expirationTime'' = Some ''900''
   \<and> Annotations (fst (snd (updatePod (exampleEnv [] None)
        (examplePod Map.empty) (Some 500) (exampleWorld Map.empty))))
        ''secrets.zncdata.dev/expirationTime'' = Some ''500''"
proof -
  let ?k = "''secrets.zncdata.dev/expirationTime''"
  let ?E = "exampleEnv [] None"
  have k: "SecretZncdataExpirationTime ?E = ?k" by (simp add: exampleEnv_def)
  have nofault: "fault ?E log ev = None" for log ev by (simp add: exampleEnv_def)
  have pod: "Namespace (examplePod ann) = ''default''" "Name (examplePod ann) = ''web''"
    "Annotations (examplePod ann) = ann" for ann
    by (simp_all add: examplePod_def)
  have cluster: "pods (exampleWorld ann) (''default'', ''web'') = Some (examplePod ann)" for ann
    by (simp add: exampleWorld_def)
  have later: "sint (1000 :: 64 word) < sint (1500 :: 64 word)" by simp
  have sooner: "sint (900 :: 64 word) \<le> sint (1000 :: 64 word)" by simp
  let ?p = "examplePod [?k \<mapsto> ''1000'']" and ?w = "exampleWorld [?k \<mapsto> ''1000'']"
  have h1: "Annotations ?p (SecretZncdataExpirationTime ?E) = Some ''1000''
      \<and> ParseInt ''1000'' = Inr 1000 \<and> sint (1000 :: 64 word) < sint (1500 :: 64 word)"
    using later by (simp add: k pod strconv_example)
  have first: "updatePod ?E ?p (Some 1500) ?w = (None, ?p, ?w)"
    using updatePod_keeps_soonest_expiration [of ?p ?E 1500 ?w] h1 by blast
  have h2: "Annotations ?p (SecretZncdataExpirationTime ?E) = None
      \<or> Annotations ?p (SecretZncdataExpirationTime ?E) = Some []
      \<or> (\<exists>s e0. Annotations ?p (SecretZncdataExpirationTime ?E) = Some s \<and> ParseInt s = Inr e0
            \<and> sint (900 :: 64 word) \<le> sint e0)"
    using sooner by (simp add: k pod strconv_example)
  have c2: "fault ?E (trace ?w) (CallPatchPod (Namespace ?p) (Name ?p)) = None
      \<and> pods ?w (Namespace ?p, Name ?p) = Some ?p
      \<and> Annotations ?p (SecretZncdataExpirationTime ?E) = Annotations ?p (SecretZncdataExpirationTime ?E)"
    by (simp add: nofault pod cluster)
  have "Annotations (fst (snd (updatePod ?E ?p (Some 900) ?w))) (SecretZncdataExpirationTime ?E)
      = Some (FormatInt 900)"
    using updatePod_keeps_soonest_expiration [of ?p ?E 900 ?w] h2 c2 by blast
  then have second: "Annotations (fst (snd (updatePod ?E ?p (Some 900) ?w))) ?k = Some ''900''"
    by (simp add: k strconv_example)
  let ?q = "examplePod Map.empty" and ?v = "exampleWorld Map.empty"
  have h3: "Annotations ?q (SecretZncdataExpirationTime ?E) = None
      \<or> Annotations ?q (SecretZncdataExpirationTime ?E) = Some []
      \<or> (\<exists>s e0. Annotations ?q (SecretZncdataExpirationTime ?E) = Some s \<and> ParseInt s = Inr e0
            \<and> sint (500 :: 64 word) \<le> sint e0)"
    by (simp add: pod)
  have c3: "fault ?E (trace ?v) (CallPatchPod (Namespace ?q) (Name ?q)) = None
      \<and> pods ?v (Namespace ?q, Name ?q) = Some ?q
      \<and> Annotations ?q (SecretZncdataExpirationTime ?E) = Annotations ?q (SecretZncdataExpirationTime ?E)"
    by (simp add: nofault pod cluster)
  have "Annotations (fst (snd (updatePod ?E ?q (Some 500) ?v))) (SecretZncdataExpirationTime ?E)
      = Some (FormatInt 500)"
    using updatePod_keeps_soonest_expiration [of ?q ?E 500 ?v] h3 c3 by blast
  then have third: "Annotations (fst (snd (updatePod ?E ?q (Some 500) ?v))) ?k = Some ''500''"
    by (simp add: k strconv_example)
  from first second third show ?thesis by blast
qed




subsection \<open>The kinds of error of a publish\<close>

lemma GetSecretClass_missing:
  "secretClasses w name = None \<Longrightarrow>
     fst (GetSecretClass E name w) = Inl (lookupError E (trace w) (CallGetSecretClass name) name)"
  by (simp add: GetSecretClass_def call_def lookupError_def split: option.splits)

lemma GetPod_missing:
  "pods w key = None \<Longrightarrow>
     fst (GetPod E key w) = Inl (lookupError E (trace w) (CallGetPod (fst key) (snd key)) (snd key))"
  by (simp add: GetPod_def call_def lookupError_def split: option.splits)

lemma publish_lookup_errors:
  assumes "validateNodePublishVolumeRequest request = None"
      and "NewVolumeSelectorFromMap E (VolumeContext request) = Inr volumeSelector"
      and "Class volumeSelector \<noteq> []"
  shows "fst (GetSecretClass E (Class volumeSelector) w) = Inl err \<Longrightarrow>
           NodePublishVolume E request w =
             (Inl (Status Internal (ErrorText err)), snd (GetSecretClass E (Class volumeSelector) w))"
    and "fst (GetSecretClass E (Class volumeSelector) w) = Inr secretClass \<Longrightarrow>
         fst (GetPod E (PodNamespace volumeSelector, Pod volumeSelector)
                (snd (GetSecretClass E (Class volumeSelector) w))) = Inl err \<Longrightarrow>
           NodePublishVolume E request w =
             (Inl (Status Internal (ErrorText err)),
              snd (GetPod E (PodNamespace volumeSelector, Pod volumeSelector)
                     (snd (GetSecretClass E (Class volumeSelector) w))))"
  using assms validate_None_TargetPath [of request]
  by (simp_all add: NodePublishVolume_def Let_def case_prod_beta del: snd_GetSecretClass snd_GetPod)

lemma publish_error_codes:
  assumes "fst (NodePublishVolume E request w) = Inl s"
  shows "code s = InvalidArgument \<or> code s = Internal"
proof (cases "secretResolved E request w")
  case None
  from NodePublishVolume_unresolved [OF None] assms show ?thesis by auto
next
  case (Some t)
  obtain pod secretContent w2 where t: "t = (pod, secretContent, w2)" by (cases t)
  note npv = NodePublishVolume_resolved [OF Some [unfolded t]]
  obtain r3 w3 where m: "mount E (TargetPath request) w2 = (r3, w3)" by force
  have "code st = Internal" if "r3 = Some st" for st
    using mount_error_code [of E "TargetPath request" w2 st] m that by simp
  then show ?thesis
    using assms by (auto simp: npv m split: option.splits prod.splits)
qed

lemma unpublish_error_codes:
  "fst (NodeUnpublishVolume E request w) = Inl s \<Longrightarrow> code s = InvalidArgument \<or> code s = Internal"
  by (auto simp: NodeUnpublishVolume_def Let_def case_prod_beta split: if_splits option.splits)

text \<open>
  Claim C2, amended. When the request is valid, its selector names a secret class, and the
  lookup of the secret class or of the pod fails, \<^verbatim>\<open>NodePublishVolume\<close> returns an
  internal status whose message is the text of the error that lookup returned; for a secret
  class or a pod that does not exist this is the client's not-found error (unless the
  environment fails the lookup otherwise), so the not-found kind of that error is not the
  kind of the status. Every error of the node service has one of the kinds
  invalid-argument, internal and unimplemented, and the kind is the one given where the
  error arises: the status of the validator and the status of the mount are returned as
  they are; an error of the selector parser and an empty class name give invalid-argument;
  an error of the backend, of a write or of the annotation update gives internal with the
  text of that error; publish and unpublish return invalid-argument or internal statuses,
  stage and unstage invalid-argument ones, and the volume statistics and the expansion
  answer unimplemented.
\<close>

theorem missing_resource_is_internal_error:
  "(\<forall>s. fst (NodePublishVolume E request w) = Inl s \<longrightarrow>
        code s = InvalidArgument \<or> code s = Internal)
   \<and> (\<forall>volumeSelector.
        validateNodePublishVolumeRequest request = None
        \<and> NewVolumeSelectorFromMap E (VolumeContext request) = Inr volumeSelector
        \<and> Class volumeSelector \<noteq> []
        \<and> (secretClasses w (Class volumeSelector) = None
           \<or> pods w (PodNamespace volumeSelector, Pod volumeSelector) = None)
      \<longrightarrow> (\<exists>err. fst (NodePublishVolume E request w) = Inl (Status Internal (ErrorText err))))
   \<and> (\<forall>volumeSelector.
        validateNodePublishVolumeRequest request = None
        \<and> NewVolumeSelectorFromMap E (VolumeContext request) = Inr volumeSelector
        \<and> Class volumeSelector \<noteq> []
      \<longrightarrow>
        (\<forall>err. fst (GetSecretClass E (Class volumeSelector) w) = Inl err \<longrightarrow>
           NodePublishVolume E request w =
             (Inl (Status Internal (ErrorText err)), snd (GetSecretClass E (Class volumeSelector) w)))
      \<and> (\<forall>secretClass err.
           fst (GetSecretClass E (Class volumeSelector) w) = Inr secretClass
           \<and> fst (GetPod E (PodNamespace volumeSelector, Pod volumeSelector)
                  (snd (GetSecretClass E (Class volumeSelector) w))) = Inl err
         \<longrightarrow>
           NodePublishVolume E request w =
             (Inl (Status Internal (ErrorText err)),
              snd (GetPod E (PodNamespace volumeSelector, Pod volumeSelector)
                     (snd (GetSecretClass E (Class volumeSelector) w)))))
      \<and> (secretClasses w (Class volumeSelector) = None \<longrightarrow>
           fst (NodePublishVolume E request w) =
             Inl (Status Internal (ErrorText
               (lookupError E (trace w) (CallGetSecretClass (Class volumeSelector))
                  (Class volumeSelector)))))
      \<and> (pods w (PodNamespace volumeSelector, Pod volumeSelector) = None
           \<and> secretClasses w (Class volumeSelector) \<noteq> None
           \<and> fault E (trace w) (CallGetSecretClass (Class volumeSelector)) = None
         \<longrightarrow>
           fst (NodePublishVolume E request w) =
             Inl (Status Internal (ErrorText
               (lookupError E (trace w @ [CallGetSecretClass (Class volumeSelector)])
                  (CallGetPod (PodNamespace volumeSelector) (Pod volumeSelector))
                  (Pod volumeSelector))))))
   \<and> (\<forall>s. validateNodePublishVolumeRequest request = Some s \<longrightarrow>
         NodePublishVolume E request w = (Inl s, w))
   \<and> (\<forall>pod secretContent w2 s.
         secretResolved E request w = Some (pod, secretContent, w2)
         \<and> fst (mount E (TargetPath request) w2) = Some s
       \<longrightarrow> fst (NodePublishVolume E request w) = Inl s)
   \<and> (\<forall>s. fst (NodeUnpublishVolume E unpublish w) = Inl s \<longrightarrow>
         code s = InvalidArgument \<or> code s = Internal)
   \<and> (\<forall>s. NodeStageVolume volumeId stagingTargetPath volumeCapability = Inl s \<longrightarrow>
         code s = InvalidArgument)
   \<and> (\<forall>s. NodeUnstageVolume volumeId stagingTargetPath = Inl s \<longrightarrow> code s = InvalidArgument)
   \<and> (NodeGetVolumeStats statsRequest :: status + unit) = Inl (Status Unimplemented (Text []))
   \<and> (NodeExpandVolume expandRequest :: status + unit) = Inl (Status Unimplemented (Text []))
   \<and> (\<forall>err.
         validateNodePublishVolumeRequest request = None
         \<and> NewVolumeSelectorFromMap E (VolumeContext request) = Inl err
       \<longrightarrow> NodePublishVolume E request w = (Inl (Status InvalidArgument (ErrorText err)), w))
   \<and> (\<forall>volumeSelector.
         validateNodePublishVolumeRequest request = None
         \<and> NewVolumeSelectorFromMap E (VolumeContext request) = Inr volumeSelector
         \<and> Class volumeSelector = []
       \<longrightarrow> NodePublishVolume E request w =
             (Inl (Status InvalidArgument (Text ''Secret class name missing in request'')), w))
   \<and> (\<forall>volumeSelector secretClass pod err.
         validateNodePublishVolumeRequest request = None
         \<and> NewVolumeSelectorFromMap E (VolumeContext request) = Inr volumeSelector
         \<and> Class volumeSelector \<noteq> []
         \<and> fst (GetSecretClass E (Class volumeSelector) w) = Inr secretClass
         \<and> fst (GetPod E (PodNamespace volumeSelector, Pod volumeSelector)
                (snd (GetSecretClass E (Class volumeSelector) w))) = Inr pod
         \<and> GetSecretData E (NewPodInfo pod volumeSelector) volumeSelector secretClass
              (snd (GetPod E (PodNamespace volumeSelector, Pod volumeSelector)
                      (snd (GetSecretClass E (Class volumeSelector) w)))) = Inl err
       \<longrightarrow> NodePublishVolume E request w =
             (Inl (Status Internal (ErrorText err)),
              snd (GetPod E (PodNamespace volumeSelector, Pod volumeSelector)
                     (snd (GetSecretClass E (Class volumeSelector) w)))))
   \<and> (\<forall>pod secretContent w2 err.
         secretResolved E request w = Some (pod, secretContent, w2)
         \<and> fst (mount E (TargetPath request) w2) = None
         \<and> fst (writeData E (TargetPath request) (Data secretContent)
                (snd (mount E (TargetPath request) w2))) = Some err
       \<longrightarrow> fst (NodePublishVolume E request w) = Inl (Status Internal (ErrorText err)))
   \<and> (\<forall>pod secretContent w2 err.
         secretResolved E request w = Some (pod, secretContent, w2)
         \<and> fst (mount E (TargetPath request) w2) = None
         \<and> fst (writeData E (TargetPath request) (Data secretContent)
                (snd (mount E (TargetPath request) w2))) = None
         \<and> fst (updatePod E pod (ExpiresTime secretContent)
                (snd (writeData E (TargetPath request) (Data secretContent)
                        (snd (mount E (TargetPath request) w2))))) = Some err
       \<longrightarrow> fst (NodePublishVolume E request w) = Inl (Status Internal (ErrorText err)))"
proof (intro conjI allI impI)
  fix s
  assume "fst (NodePublishVolume E request w) = Inl s"
  then show "code s = InvalidArgument \<or> code s = Internal" by (rule publish_error_codes)
next
  fix volumeSelector
  assume a: "validateNodePublishVolumeRequest request = None
        \<and> NewVolumeSelectorFromMap E (VolumeContext request) = Inr volumeSelector
        \<and> Class volumeSelector \<noteq> []
        \<and> (secretClasses w (Class volumeSelector) = None
           \<or> pods w (PodNamespace volumeSelector, Pod volumeSelector) = None)"
  then have tp: "TargetPath request \<noteq> []" using validate_None_TargetPath by blast
  from a tp show "\<exists>err. fst (NodePublishVolume E request w) = Inl (Status Internal (ErrorText err))"
    by (auto simp: NodePublishVolume_def GetSecretClass_def GetPod_def call_def Let_def
             split: option.splits)
next
  fix volumeSelector
  assume a: "validateNodePublishVolumeRequest request = None
        \<and> NewVolumeSelectorFromMap E (VolumeContext request) = Inr volumeSelector
        \<and> Class volumeSelector \<noteq> []"
  then have v: "validateNodePublishVolumeRequest request = None"
    and sel: "NewVolumeSelectorFromMap E (VolumeContext request) = Inr volumeSelector"
    and cl: "Class volumeSelector \<noteq> []"
    by simp_all
  note lookups = publish_lookup_errors [OF v sel cl]
  {
    fix err
    assume "fst (GetSecretClass E (Class volumeSelector) w) = Inl err"
    then show "NodePublishVolume E request w =
             (Inl (Status Internal (ErrorText err)), snd (GetSecretClass E (Class volumeSelector) w))"
      by (rule lookups(1))
  }
  {
    fix secretClass err
    assume "fst (GetSecretClass E (Class volumeSelector) w) = Inr secretClass
           \<and> fst (GetPod E (PodNamespace volumeSelector, Pod volumeSelector)
                  (snd (GetSecretClass E (Class volumeSelector) w))) = Inl err"
    then show "NodePublishVolume E request w =
             (Inl (Status Internal (ErrorText err)),
              snd (GetPod E (PodNamespace volumeSelector, Pod volumeSelector)
                     (snd (GetSecretClass E (Class volumeSelector) w))))"
      using lookups(2) by blast
  }
  {
    assume "secretClasses w (Class volumeSelector) = None"
    from lookups(1) [OF GetSecretClass_missing [OF this]]
    show "fst (NodePublishVolume E request w) =
             Inl (Status Internal (ErrorText
               (lookupError E (trace w) (CallGetSecretClass (Class volumeSelector))
                  (Class volumeSelector))))"
      by simp
  }
  {
    assume b: "pods w (PodNamespace volumeSelector, Pod volumeSelector) = None
           \<and> secretClasses w (Class volumeSelector) \<noteq> None
           \<and> fault E (trace w) (CallGetSecretClass (Class volumeSelector)) = None"
    then obtain secretClass where
      sc: "fst (GetSecretClass E (Class volumeSelector) w) = Inr secretClass"
      by (auto simp: GetSecretClass_def call_def)
    have "pods (snd (GetSecretClass E (Class volumeSelector) w))
            (PodNamespace volumeSelector, Pod volumeSelector) = None"
      using b by simp
    from lookups(2) [OF sc GetPod_missing [OF this]]
    show "fst (NodePublishVolume E request w) =
             Inl (Status Internal (ErrorText
               (lookupError E (trace w @ [CallGetSecretClass (Class volumeSelector)])
                  (CallGetPod (PodNamespace volumeSelector) (Pod volumeSelector))
                  (Pod volumeSelector))))"
      by simp
  }
next
  fix s
  assume "validateNodePublishVolumeRequest request = Some s"
  then show "NodePublishVolume E request w = (Inl s, w)"
    by (simp add: NodePublishVolume_def)
next
  fix pod secretContent w2 s
  assume "secretResolved E request w = Some (pod, secretContent, w2)
         \<and> fst (mount E (TargetPath request) w2) = Some s"
  then show "fst (NodePublishVolume E request w) = Inl s"
    by (auto simp: NodePublishVolume_resolved case_prod_beta)
next
  fix s
  assume "fst (NodeUnpublishVolume E unpublish w) = Inl s"
  then show "code s = InvalidArgument \<or> code s = Internal" by (rule unpublish_error_codes)
next
  fix s
  assume "NodeStageVolume volumeId stagingTargetPath volumeCapability = Inl s"
  then show "code s = InvalidArgument"
    by (auto simp: NodeStageVolume_def split: if_splits)
next
  fix s
  assume "NodeUnstageVolume volumeId stagingTargetPath = Inl s"
  then show "code s = InvalidArgument"
    by (auto simp: NodeUnstageVolume_def split: if_splits)
next
  show "(NodeGetVolumeStats statsRequest :: status + unit) = Inl (Status Unimplemented (Text []))"
    by (simp add: NodeGetVolumeStats_def)
  show "(NodeExpandVolume expandRequest :: status + unit) = Inl (Status Unimplemented (Text []))"
    by (simp add: NodeExpandVolume_def)
next
  fix err
  assume "validateNodePublishVolumeRequest request = None
         \<and> NewVolumeSelectorFromMap E (VolumeContext request) = Inl err"
  then show "NodePublishVolume E request w = (Inl (Status InvalidArgument (ErrorText err)), w)"
    using validate_None_TargetPath [of request] by (simp add: NodePublishVolume_def)
next
  fix volumeSelector
  assume "validateNodePublishVolumeRequest request = None
         \<and> NewVolumeSelectorFromMap E (VolumeContext request) = Inr volumeSelector
         \<and> Class volumeSelector = []"
  then show "NodePublishVolume E request w =
             (Inl (Status InvalidArgument (Text ''Secret class name missing in request'')), w)"
    using validate_None_TargetPath [of request] by (simp add: NodePublishVolume_def)
next
  fix volumeSelector secretClass pod err
  assume "validateNodePublishVolumeRequest request = None
         \<and> NewVolumeSelectorFromMap E (VolumeContext request) = Inr volumeSelector
         \<and> Class volumeSelector \<noteq> []
         \<and> fst (GetSecretClass E (Class volumeSelector) w) = Inr secretClass
         \<and> fst (GetPod E (PodNamespace volumeSelector, Pod volumeSelector)
                (snd (GetSecretClass E (Class volumeSelector) w))) = Inr pod
         \<and> GetSecretData E (NewPodInfo pod volumeSelector) volumeSelector secretClass
              (snd (GetPod E (PodNamespace volumeSelector, Pod volumeSelector)
                      (snd (GetSecretClass E (Class volumeSelector) w)))) = Inl err"
  then show "NodePublishVolume E request w =
             (Inl (Status Internal (ErrorText err)),
              snd (GetPod E (PodNamespace volumeSelector, Pod volumeSelector)
                     (snd (GetSecretClass E (Class volumeSelector) w))))"
    using validate_None_TargetPath [of request]
    by (simp add: NodePublishVolume_def Let_def case_prod_beta del: snd_GetSecretClass snd_GetPod)
next
  fix pod secretContent w2 err
  assume "secretResolved E request w = Some (pod, secretContent, w2)
         \<and> fst (mount E (TargetPath request) w2) = None
         \<and> fst (writeData E (TargetPath request) (Data secretContent)
                (snd (mount E (TargetPath request) w2))) = Some err"
  then show "fst (NodePublishVolume E request w) = Inl (Status Internal (ErrorText err))"
    by (simp add: NodePublishVolume_resolved case_prod_beta)
next
  fix pod secretContent w2 err
  assume "secretResolved E request w = Some (pod, secretContent, w2)
         \<and> fst (mount E (TargetPath request) w2) = None
         \<and> fst (writeData E (TargetPath request) (Data secretContent)
                (snd (mount E (TargetPath request) w2))) = None
         \<and> fst (updatePod E pod (ExpiresTime secretContent)
                (snd (writeData E (TargetPath request) (Data secretContent)
                        (snd (mount E (TargetPath request) w2))))) = Some err"
  then show "fst (NodePublishVolume E request w) = Inl (Status Internal (ErrorText err))"
    by (simp add: NodePublishVolume_resolved case_prod_beta)
qed

theorem missing_resource_is_internal_error_witness:
  "secretClasses ((exampleWorld Map.empty)\<lparr>secretClasses := Map.empty\<rparr>) ''tls'' = None
   \<and> (\<exists>err. fst (NodePublishVolume (exampleEnv [] None) exampleRequest
                 ((exampleWorld Map.empty)\<lparr>secretClasses := Map.empty\<rparr>))
            = Inl (Status Internal (ErrorText err)))
   \<and> fst (NodePublishVolume (exampleEnv [] None) exampleRequest
           ((exampleWorld Map.empty)\<lparr>secretClasses := Map.empty\<rparr>))
       = Inl (Status Internal (ErrorText (APIStatusError ReasonNotFound ''tls'')))
   \<and> fst (NodePublishVolume (exampleEnv [CallGetSecretClass ''tls''] None) exampleRequest
           ((exampleWorld Map.empty)\<lparr>secretClasses := Map.empty\<rparr>))
       = Inl (Status Internal (ErrorText (ErrorString ''input/output error'')))
   \<and> pods ((exampleWorld Map.empty)\<lparr>pods := Map.empty\<rparr>) (''default'', ''web'') = None
   \<and> fst (NodePublishVolume (exampleEnv [] None) exampleRequest
           ((exampleWorld Map.empty)\<lparr>pods := Map.empty\<rparr>))
       = Inl (Status Internal (ErrorText (APIStatusError ReasonNotFound ''web'')))
   \<and> NodePublishVolume (exampleEnv [] None) (exampleRequest\<lparr>VolumeId := []\<rparr>)
         (exampleWorld Map.empty)
       = (Inl (Status InvalidArgument (Text ''volume ID missing in request'')), exampleWorld Map.empty)
   \<and> fst (NodePublishVolume (exampleEnv [CallMount ''tmpfs'' ''/mnt/v1'' ''tmpfs''
                                  [''noexec'', ''nosuid'', ''nodev'']] None)
           exampleRequest (exampleWorld Map.empty))
       = Inl (Status Internal (ErrorText (ErrorString ''input/output error'')))
   \<and> fst (NodeUnpublishVolume (exampleEnv [] None) (exampleUnpublish\<lparr>TargetPath := []\<rparr>)
           (exampleWorld Map.empty))
       = Inl (Status InvalidArgument (Text ''Target path missing in request''))
   \<and> NodeStageVolume ''vol-1'' [] (Some MountVolume)
       = Inl (Status InvalidArgument (Text ''Staging target path missing in request''))
   \<and> NodeUnstageVolume [] ''/staging''
       = Inl (Status InvalidArgument (Text ''Volume ID missing in request''))
   \<and> (NodeGetVolumeStats exampleUnpublish :: status + unit) = Inl (Status Unimplemented (Text []))
   \<and> fst (NodePublishVolume (exampleEnv [CallWriteFile ''/mnt/v1/a'' ''x'' 420] None)
           exampleRequest (exampleWorld Map.empty))
       = Inl (Status Internal (ErrorText (ErrorString ''input/output error'')))"
proof -
  let ?E = "exampleEnv [] None"
  let ?init = "exampleWorld Map.empty"
  let ?noclass = "?init\<lparr>secretClasses := Map.empty\<rparr>"
  let ?nopod = "?init\<lparr>pods := Map.empty\<rparr>"
  let ?vs = "\<lparr>Class = ''tls'', Pod = ''web'', PodNamespace = ''default''\<rparr>"
  have sel: "validateNodePublishVolumeRequest exampleRequest = None
        \<and> NewVolumeSelectorFromMap (exampleEnv bad None) (VolumeContext exampleRequest) = Inr ?vs
        \<and> Class ?vs \<noteq> []" for bad
    by (simp add: example_defs validateNodePublishVolumeRequest_def)
  have vs: "Class ?vs = ''tls''" "Pod ?vs = ''web''" "PodNamespace ?vs = ''default''" by simp_all
  have noclass: "secretClasses ?noclass (Class ?vs) = None" by simp
  have nopod: "pods ?nopod (PodNamespace ?vs, Pod ?vs) = None
           \<and> secretClasses ?nopod (Class ?vs) \<noteq> None
           \<and> fault ?E (trace ?nopod) (CallGetSecretClass (Class ?vs)) = None"
    by (simp add: exampleWorld_def example_fault)
  note c1 = missing_resource_is_internal_error [of ?E exampleRequest ?noclass]
  have h: "validateNodePublishVolumeRequest exampleRequest = None
        \<and> NewVolumeSelectorFromMap ?E (VolumeContext exampleRequest) = Inr ?vs
        \<and> Class ?vs \<noteq> []
        \<and> (secretClasses ?noclass (Class ?vs) = None
           \<or> pods ?noclass (PodNamespace ?vs, Pod ?vs) = None)"
    using sel [of "[]"] noclass by blast
  have w1: "\<exists>err. fst (NodePublishVolume ?E exampleRequest ?noclass) = Inl (Status Internal (ErrorText err))"
    by (rule c1 [THEN conjunct2, THEN conjunct1, rule_format, OF h])
  have "fst (NodePublishVolume ?E exampleRequest ?noclass) =
      Inl (Status Internal (ErrorText (lookupError ?E (trace ?noclass)
             (CallGetSecretClass (Class ?vs)) (Class ?vs))))"
    by (rule c1 [THEN conjunct2, THEN conjunct2, THEN conjunct1, rule_format, OF sel,
          THEN conjunct2, THEN conjunct2, THEN conjunct1, rule_format, OF noclass])
  then have w2: "fst (NodePublishVolume ?E exampleRequest ?noclass)
       = Inl (Status Internal (ErrorText (APIStatusError ReasonNotFound ''tls'')))"
    by (simp add: lookupError_def example_fault)
  let ?F = "exampleEnv [CallGetSecretClass ''tls''] None"
  have "fst (NodePublishVolume ?F exampleRequest ?noclass) =
      Inl (Status Internal (ErrorText (lookupError ?F (trace ?noclass)
             (CallGetSecretClass (Class ?vs)) (Class ?vs))))"
    by (rule missing_resource_is_internal_error [of ?F exampleRequest ?noclass,
          THEN conjunct2, THEN conjunct2, THEN conjunct1, rule_format, OF sel,
          THEN conjunct2, THEN conjunct2, THEN conjunct1, rule_format, OF noclass])
  then have w3: "fst (NodePublishVolume ?F exampleRequest ?noclass)
       = Inl (Status Internal (ErrorText (ErrorString ''input/output error'')))"
    by (simp add: lookupError_def example_fault)
  have "fst (NodePublishVolume ?E exampleRequest ?nopod) =
      Inl (Status Internal (ErrorText (lookupError ?E (trace ?nopod @ [CallGetSecretClass (Class ?vs)])
             (CallGetPod (PodNamespace ?vs) (Pod ?vs)) (Pod ?vs))))"
    by (rule missing_resource_is_internal_error [of ?E exampleRequest ?nopod,
          THEN conjunct2, THEN conjunct2, THEN conjunct1, rule_format, OF sel,
          THEN conjunct2, THEN conjunct2, THEN conjunct2, rule_format, OF nopod])
  then have w4: "fst (NodePublishVolume ?E exampleRequest ?nopod)
       = Inl (Status Internal (ErrorText (APIStatusError ReasonNotFound ''web'')))"
    by (simp add: lookupError_def example_fault)
  have "validateNodePublishVolumeRequest (exampleRequest\<lparr>VolumeId := []\<rparr>)
      = Some (Status InvalidArgument (Text ''volume ID missing in request''))"
    by (simp add: validateNodePublishVolumeRequest_def)
  then have w5: "NodePublishVolume ?E (exampleRequest\<lparr>VolumeId := []\<rparr>) ?init
       = (Inl (Status InvalidArgument (Text ''volume ID missing in request'')), ?init)"
    by (rule missing_resource_is_internal_error [of ?E "exampleRequest\<lparr>VolumeId := []\<rparr>" ?init,
          THEN conjunct2, THEN conjunct2, THEN conjunct2, THEN conjunct1, rule_format])
  let ?M = "exampleEnv [CallMount ''tmpfs'' ''/mnt/v1'' ''tmpfs'' [''noexec'', ''nosuid'', ''nodev'']] None"
  have res: "secretResolved ?M exampleRequest ?init =
     Some (examplePod Map.empty, \<lparr>Data = [(''a'', ''x''), (''b'', ''y'')], ExpiresTime = None\<rparr>,
         ?init\<lparr>trace := [CallGetSecretClass ''tls'', CallGetPod ''default'' ''web'']\<rparr>)"
    by (rule example_resolved) simp_all
  have m: "fst (mount ?M (TargetPath exampleRequest)
                 (?init\<lparr>trace := [CallGetSecretClass ''tls'', CallGetPod ''default'' ''web'']\<rparr>))
      = Some (Status Internal (ErrorText (ErrorString ''input/output error'')))"
    by (simp add: mount_def PathExists_def MkdirAll_def Mount_def call_def example_fault
          exampleRequest_def exampleWorld_def Clean_example ancestors_example)
  from res m
  have w6: "fst (NodePublishVolume ?M exampleRequest ?init)
       = Inl (Status Internal (ErrorText (ErrorString ''input/output error'')))"
    using missing_resource_is_internal_error [of ?M exampleRequest ?init,
          THEN conjunct2, THEN conjunct2, THEN conjunct2, THEN conjunct2, THEN conjunct1]
    by blast
  have w7: "fst (NodeUnpublishVolume ?E (exampleUnpublish\<lparr>TargetPath := []\<rparr>) ?init)
       = Inl (Status InvalidArgument (Text ''Target path missing in request''))"
    by (simp add: NodeUnpublishVolume_def exampleUnpublish_def)
  have w8: "NodeStageVolume ''vol-1'' [] (Some MountVolume)
       = Inl (Status InvalidArgument (Text ''Staging target path missing in request''))"
    "NodeUnstageVolume [] ''/staging''
       = Inl (Status InvalidArgument (Text ''Volume ID missing in request''))"
    by (simp_all add: NodeStageVolume_def NodeUnstageVolume_def)
  have w9: "(NodeGetVolumeStats exampleUnpublish :: status + unit) = Inl (Status Unimplemented (Text []))"
    by (rule missing_resource_is_internal_error [of ?E exampleRequest ?init, THEN conjunct2, THEN conjunct2, THEN conjunct2,
          THEN conjunct2, THEN conjunct2, THEN conjunct2, THEN conjunct2, THEN conjunct2,
          THEN conjunct1])
  let ?W = "exampleEnv [CallWriteFile ''/mnt/v1/a'' ''x'' 420] None"
  let ?fetched = "?init\<lparr>trace := [CallGetSecretClass ''tls'', CallGetPod ''default'' ''web'']\<rparr>"
  have resW: "secretResolved ?W exampleRequest ?init =
     Some (examplePod Map.empty, \<lparr>Data = [(''a'', ''x''), (''b'', ''y'')], ExpiresTime = None\<rparr>,
           ?fetched)"
    by (rule example_resolved) simp_all
  have mW: "fst (mount ?W (TargetPath exampleRequest) ?fetched) = None"
    by (simp add: call_defs example_fault exampleRequest_def exampleWorld_def Clean_example
          ancestors_example)
  have wW: "fst (writeData ?W (TargetPath exampleRequest)
                  (Data \<lparr>Data = [(''a'', ''x''), (''b'', ''y'')], ExpiresTime = None\<rparr>)
                  (snd (mount ?W (TargetPath exampleRequest) ?fetched)))
      = Some (ErrorString ''input/output error'')"
    by (simp add: call_defs example_fault exampleRequest_def exampleWorld_def Clean_example
          ancestors_example)
  from resW mW wW
  have w10: "fst (NodePublishVolume ?W exampleRequest ?init)
       = Inl (Status Internal (ErrorText (ErrorString ''input/output error'')))"
    using missing_resource_is_internal_error [of ?W exampleRequest ?init,
          THEN conjunct2, THEN conjunct2, THEN conjunct2, THEN conjunct2, THEN conjunct2,
          THEN conjunct2, THEN conjunct2, THEN conjunct2, THEN conjunct2, THEN conjunct2,
          THEN conjunct2, THEN conjunct2, THEN conjunct2, THEN conjunct1]
    by blast
  from w1 w2 w3 w4 w5 w6 w7 w8 w9 w10 show ?thesis by simp
qed

text \<open>
  On the example node without its secret class, and without its pod, the publish fails
  with the code \<open>Internal\<close>, which is not \<open>NotFound\<close>.
\<close>

theorem missing_resource_not_found_counterexample:
  "secretClasses ((exampleWorld Map.empty)\<lparr>secretClasses := Map.empty\<rparr>) ''tls'' = None
   \<and> fst (NodePublishVolume (exampleEnv [] None) exampleRequest
           ((exampleWorld Map.empty)\<lparr>secretClasses := Map.empty\<rparr>))
       = Inl (Status Internal (ErrorText (APIStatusError ReasonNotFound ''tls'')))
   \<and> pods ((exampleWorld Map.empty)\<lparr>pods := Map.empty\<rparr>) (''default'', ''web'') = None
   \<and> fst (NodePublishVolume (exampleEnv [] None) exampleRequest
           ((exampleWorld Map.empty)\<lparr>pods := Map.empty\<rparr>))
       = Inl (Status Internal (ErrorText (APIStatusError ReasonNotFound ''web'')))
   \<and> code (Status Internal (ErrorText (APIStatusError ReasonNotFound ''tls''))) \<noteq> NotFound"
  by (simp add: NodePublishVolume_def example_defs call_defs)

subsection \<open>The content writer\<close>









lemma Join_example:
  "Join [''/mnt/v1'', ''a''] = ''/mnt/v1/a''"
  "Join [''/mnt/v1'', ''b''] = ''/mnt/v1/b''"
  "Join [''/mnt/v1'', ''../escape''] = ''/mnt/escape''"
  "Clean ''/mnt/escape'' = ''/mnt/escape''"
  by code_simp+



text \<open>
  Claim C10. \<^verbatim>\<open>writeData\<close> hands every file name to the write unchecked: for a single
  entry the call logged is the write at the join of the target path and the name, whatever
  the name is. For the name \<^verbatim>\<open>../escape\<close> under the target path \<^verbatim>\<open>/mnt/v1\<close> the join
  is \<^verbatim>\<open>/mnt/escape\<close>, which is not within the target path, and on the example node the
  call succeeds and creates that file.
\<close>

theorem writeData_does_not_guard_traversal:
  "(\<forall>E t name content w.
      trace (snd (writeData E t [(name, content)] w)) =
        trace w @ [CallWriteFile (Join [t, name]) content 420])
   \<and> Join [''/mnt/v1'', ''../escape''] = ''/mnt/escape''
   \<and> \<not> within (Clean ''/mnt/v1'') (Clean ''/mnt/escape'')
   \<and> fst (writeData (exampleEnv [] None) ''/mnt/v1'' [(''../escape'', ''x'')]
          ((exampleWorld Map.empty)\<lparr>files := [''/mnt'' \<mapsto> Dir, ''/mnt/v1'' \<mapsto> Dir]\<rparr>)) = None
   \<and> files (snd (writeData (exampleEnv [] None) ''/mnt/v1'' [(''../escape'', ''x'')]
          ((exampleWorld Map.empty)\<lparr>files := [''/mnt'' \<mapsto> Dir, ''/mnt/v1'' \<mapsto> Dir]\<rparr>)))
       = [''/mnt'' \<mapsto> Dir, ''/mnt/v1'' \<mapsto> Dir, ''/mnt/escape'' \<mapsto> File ''x'']"
proof (intro conjI allI)
  fix E t name content w
  show "trace (snd (writeData E t [(name, content)] w)) =
        trace w @ [CallWriteFile (Join [t, name]) content 420]"
    by (auto simp: WriteFile_def call_def Let_def split: option.splits)
next
  show "Join [''/mnt/v1'', ''../escape''] = ''/mnt/escape''" by (rule Join_example)
next
  show "\<not> within (Clean ''/mnt/v1'') (Clean ''/mnt/escape'')"
    by (simp add: Clean_example Join_example within_def)
qed (simp_all add: example_defs WriteFile_def call_def Join_example Clean_example Let_def)

subsection \<open>Unpublish\<close>

lemma Unmount_frame:
  "files (snd (Unmount E target w)) = files w"
  "trace (snd (Unmount E target w)) = trace w @ [CallUnmount target]"
  by (auto simp: Unmount_def call_def split: option.splits)

lemma Unmount_mounts:
  "mounts (snd (Unmount E target w)) =
     (if fst (Unmount E target w) = None
      then removeLast (\<lambda>m. Clean (Path m) = Clean target) (mounts w) else mounts w)"
  by (auto simp: Unmount_def call_def split: option.splits)

lemma removeLast_snoc: "P x \<Longrightarrow> removeLast P (xs @ [x]) = xs"
  by (induction xs) (auto simp: list_ex_iff)

lemma within_self: "within p p"
  by (simp add: within_def)

lemma ancestors_outside:
  assumes "a \<in> set (ancestors q)"
  shows "\<not> within q a"
proof -
  from assms have ne: "a \<noteq> q" and "\<exists>i < length q. a = ''/'' \<or> a = take i q"
    by (auto simp: ancestors_def split: if_splits)
  then have len: "length a \<le> length q" by auto
  show ?thesis
  proof
    assume "within q a"
    with ne have p: "prefix (if q = ''/'' then q else q @ ''/'') a" by (simp add: within_def)
    show False
    proof (cases "q = ''/''")
      case True
      with p len ne show False by (cases a) (auto simp: prefix_def)
    next
      case False
      with p have "length (q @ ''/'') \<le> length a" using prefix_length_le by fastforce
      with len show False by simp
    qed
  qed
qed

lemma RemoveAll_frame:
  "trace (snd (RemoveAll E path w)) = trace w @ [CallRemoveAll path]"
  "mounts (snd (RemoveAll E path w)) = mounts w"
  by (auto simp: RemoveAll_def call_def split: option.splits)

lemma RemoveAll_success:
  assumes "fst (RemoveAll E path w) = None" "path \<noteq> []"
  shows "\<not> endsWithDot path"
    and "\<not> list_ex (\<lambda>p. isFile (files w p)) (ancestors (Clean path))"
    and "files (snd (RemoveAll E path w)) =
           (if files w (Clean path) = None then files w
            else (\<lambda>q. if within (Clean path) q then None else files w q))"
    and "files w (Clean path) \<noteq> None \<Longrightarrow> \<not> leadsToMount w (Clean path)"
  using assms
  by (auto simp: RemoveAll_def call_def split: option.splits if_splits)

lemma RemoveAll_absent:
  assumes "files w (Clean path) = None" "\<not> endsWithDot path"
      and "\<not> list_ex (\<lambda>p. isFile (files w p)) (ancestors (Clean path))"
  shows "fst (RemoveAll E path w) = None" "files (snd (RemoveAll E path w)) = files w"
  using assms by (auto simp: RemoveAll_def call_def)

lemma NodeUnpublishVolume_result:
  assumes "VolumeId request \<noteq> []" "TargetPath request \<noteq> []"
  shows "NodeUnpublishVolume E request w =
           (case RemoveAll E (TargetPath request) (snd (Unmount E (TargetPath request) w)) of
              (Some err, w2) \<Rightarrow> (Inl (Status Internal (ErrorText err)), w2)
            | (None, w2) \<Rightarrow> (Inr (), w2))"
  using assms by (simp add: NodeUnpublishVolume_def case_prod_beta Let_def split: option.splits)

lemma NodeUnpublishVolume_world:
  assumes "VolumeId request \<noteq> []" "TargetPath request \<noteq> []"
  shows "snd (NodeUnpublishVolume E request w) =
           snd (RemoveAll E (TargetPath request) (snd (Unmount E (TargetPath request) w)))"
  by (simp add: NodeUnpublishVolume_result [OF assms] case_prod_beta split: option.splits)

lemma writeData_keeps_Dir:
  "files w q = Some Dir \<Longrightarrow> files (snd (writeData E targetPath data w)) q = Some Dir"
proof (induction data arbitrary: w)
  case Nil
  then show ?case by simp
next
  case (Cons entry rest)
  obtain name content where entry: "entry = (name, content)" by (cases entry)
  obtain r w' where wf: "WriteFile E (Join [targetPath, name]) content 420 w = (r, w')"
    by force
  then have keep: "files w' q = Some Dir"
    using Cons.prems by (auto simp: WriteFile_def call_def split: option.splits if_splits)
  show ?case
  proof (cases r)
    case None
    then show ?thesis using Cons.IH [OF keep] wf by (simp add: entry)
  next
    case (Some err)
    then show ?thesis using keep wf by (simp add: entry)
  qed
qed

lemma publish_leaves_directory:
  assumes "fst (NodePublishVolume E request w) = Inr ()"
  shows "files (snd (NodePublishVolume E request w)) (Clean (TargetPath request)) = Some Dir"
proof -
  from NodePublishVolume_success [OF assms] obtain pod secretContent w2 w3 w4 pod' w5 where
    res: "secretResolved E request w = Some (pod, secretContent, w2)" and
    m: "mount E (TargetPath request) w2 = (None, w3)" and
    wd: "writeData E (TargetPath request) (Data secretContent) w3 = (None, w4)" and
    up: "updatePod E pod (ExpiresTime secretContent) w4 = (None, pod', w5)" and
    w': "snd (NodePublishVolume E request w) = w5"
    by blast
  have "files w4 (Clean (TargetPath request)) = Some Dir"
    using writeData_keeps_Dir [OF mount_ok(4) [OF m], of E "TargetPath request" "Data secretContent"] wd
    by simp
  moreover have "files w5 = files w4"
    using updatePod_frame(1) [of E pod "ExpiresTime secretContent" w4] up by simp
  ultimately show ?thesis using w' by simp
qed

lemma leadsToMount_mounts: "mounts a = mounts b \<Longrightarrow> leadsToMount a q = leadsToMount b q"
  by (simp add: leadsToMount_def)

lemma publish_mount_table:
  assumes "fst (NodePublishVolume E request w) = Inr ()"
  shows "mounts (snd (NodePublishVolume E request w)) = mounts w @
           [\<lparr>Device = ''tmpfs'', Path = TargetPath request, Type = ''tmpfs'',
             Opts = [''noexec'', ''nosuid'', ''nodev'']\<rparr>]"
proof -
  from NodePublishVolume_success [OF assms] obtain pod secretContent w2 w3 w4 pod' w5 where
    res: "secretResolved E request w = Some (pod, secretContent, w2)" and
    m: "mount E (TargetPath request) w2 = (None, w3)" and
    wd: "writeData E (TargetPath request) (Data secretContent) w3 = (None, w4)" and
    up: "updatePod E pod (ExpiresTime secretContent) w4 = (None, pod', w5)" and
    w': "snd (NodePublishVolume E request w) = w5"
    by blast
  have "mounts w5 = mounts w4"
    using updatePod_frame(2) [of E pod "ExpiresTime secretContent" w4] up by simp
  moreover have "mounts w4 = mounts w3"
    using writeData_frame [of E "TargetPath request" "Data secretContent" w3] wd by simp
  ultimately show ?thesis
    using mount_ok(1) [OF m] secretResolved_world(2) [OF res] w' by simp
qed

text \<open>
  Claim C5. For a request with a volume id and a target path, \<^verbatim>\<open>NodeUnpublishVolume\<close>
  calls the unmount and then the removal of the target path, and its result is decided by
  the removal alone, whatever the unmount returned: success when the removal succeeds, an
  internal error with the text of its error otherwise. After a successful call the target
  path and everything within it are gone (the files are as before when the path did not
  exist), no entry of the mount table is at the path or within it when the path existed,
  and a second call on the world it leaves succeeds and leaves the files as they are.
  After a successful publish the target path is a directory; a successful unpublish of the
  same path leaves nothing at the path or within it and the mount table as it was before
  the publish.
\<close>

theorem unpublish_is_idempotent:
  assumes "VolumeId request \<noteq> []" "TargetPath request \<noteq> []"
  shows "fst (NodeUnpublishVolume E request w) =
           (case fst (RemoveAll E (TargetPath request) (snd (Unmount E (TargetPath request) w))) of
              None \<Rightarrow> Inr ()
            | Some err \<Rightarrow> Inl (Status Internal (ErrorText err)))
       \<and> trace (snd (NodeUnpublishVolume E request w)) =
           trace w @ [CallUnmount (TargetPath request), CallRemoveAll (TargetPath request)]
       \<and> (fst (NodeUnpublishVolume E request w) = Inr () \<longrightarrow>
            files (snd (NodeUnpublishVolume E request w)) =
              (if files w (Clean (TargetPath request)) = None then files w
               else (\<lambda>q. if within (Clean (TargetPath request)) q then None else files w q))
          \<and> files (snd (NodeUnpublishVolume E request w)) (Clean (TargetPath request)) = None
          \<and> (files w (Clean (TargetPath request)) \<noteq> None \<longrightarrow>
               \<not> leadsToMount (snd (NodeUnpublishVolume E request w)) (Clean (TargetPath request)))
          \<and> fst (NodeUnpublishVolume E request (snd (NodeUnpublishVolume E request w))) = Inr ()
          \<and> files (snd (NodeUnpublishVolume E request (snd (NodeUnpublishVolume E request w))))
              = files (snd (NodeUnpublishVolume E request w)))
       \<and> (\<forall>published w0.
            fst (NodePublishVolume E published w0) = Inr ()
            \<and> TargetPath published = TargetPath request
            \<and> w = snd (NodePublishVolume E published w0)
          \<longrightarrow>
            files w (Clean (TargetPath request)) = Some Dir
          \<and> (fst (NodeUnpublishVolume E request w) = Inr () \<longrightarrow>
               (\<forall>q. within (Clean (TargetPath request)) q \<longrightarrow>
                  files (snd (NodeUnpublishVolume E request w)) q = None)
             \<and> mounts (snd (NodeUnpublishVolume E request w)) = mounts w0))"
proof -
  let ?t = "TargetPath request"
  let ?u = "\<lambda>w. snd (Unmount E ?t w)"
  note res = NodeUnpublishVolume_result [OF assms]
  note world = NodeUnpublishVolume_world [OF assms]
  have first: "fst (NodeUnpublishVolume E request w) =
           (case fst (RemoveAll E ?t (?u w)) of
              None \<Rightarrow> Inr ()
            | Some err \<Rightarrow> Inl (Status Internal (ErrorText err)))" for w
    by (simp add: res case_prod_beta split: option.splits)
  have log: "trace (snd (NodeUnpublishVolume E request w)) =
           trace w @ [CallUnmount ?t, CallRemoveAll ?t]"
    by (simp add: world RemoveAll_frame Unmount_frame)
  have removal: "fst (RemoveAll E ?t (?u w)) = None"
    if "fst (NodeUnpublishVolume E request w) = Inr ()" for w
    using that by (simp add: first split: option.splits)
  have after: "files (snd (NodeUnpublishVolume E request w)) =
              (if files w (Clean ?t) = None then files w
               else (\<lambda>q. if within (Clean ?t) q then None else files w q))"
    if ok: "fst (NodeUnpublishVolume E request w) = Inr ()" for w
    using RemoveAll_success(3) [OF removal [OF ok] assms(2)]
    by (simp add: world Unmount_frame cong: if_cong)
  have gone: "files (snd (NodeUnpublishVolume E request w)) (Clean ?t) = None"
    if ok: "fst (NodeUnpublishVolume E request w) = Inr ()" for w
    by (simp add: after [OF ok] within_self)
  have unmounted: "\<not> leadsToMount (snd (NodeUnpublishVolume E request w)) (Clean ?t)"
    if ok: "fst (NodeUnpublishVolume E request w) = Inr ()"
      and ex: "files w (Clean ?t) \<noteq> None" for w
  proof -
    have "\<not> leadsToMount (?u w) (Clean ?t)"
      using RemoveAll_success(4) [OF removal [OF ok] assms(2)] ex by (simp add: Unmount_frame)
    moreover have "mounts (snd (NodeUnpublishVolume E request w)) = mounts (?u w)"
      by (simp add: world RemoveAll_frame)
    ultimately show ?thesis using leadsToMount_mounts by blast
  qed
  have again: "fst (NodeUnpublishVolume E request (snd (NodeUnpublishVolume E request w))) = Inr ()"
    and same: "files (snd (NodeUnpublishVolume E request (snd (NodeUnpublishVolume E request w))))
              = files (snd (NodeUnpublishVolume E request w))"
    if ok: "fst (NodeUnpublishVolume E request w) = Inr ()"
  proof -
    let ?w1 = "snd (NodeUnpublishVolume E request w)"
    note r = RemoveAll_success(1,2) [OF removal [OF ok] assms(2)]
    have anc: "files ?w1 a = files w a" if "a \<in> set (ancestors (Clean ?t))" for a
      using ancestors_outside [OF that] by (simp add: after [OF ok])
    have "list_ex (\<lambda>p. isFile (files ?w1 p)) (ancestors (Clean ?t)) =
          list_ex (\<lambda>p. isFile (files w p)) (ancestors (Clean ?t))"
      using anc by (simp add: list_ex_iff)
    then have a: "\<not> list_ex (\<lambda>p. isFile (files (?u ?w1) p)) (ancestors (Clean ?t))"
      using r(2) by (simp add: Unmount_frame)
    have g: "files (?u ?w1) (Clean ?t) = None"
      using gone [OF ok] by (simp add: Unmount_frame)
    from RemoveAll_absent [OF g r(1) a, of E]
    show "fst (NodeUnpublishVolume E request ?w1) = Inr ()"
      and "files (snd (NodeUnpublishVolume E request ?w1)) = files ?w1"
      by (simp_all add: first world Unmount_frame)
  qed
  have published: "files w (Clean ?t) = Some Dir"
    if "fst (NodePublishVolume E published w0) = Inr ()
            \<and> TargetPath published = TargetPath request
            \<and> w = snd (NodePublishVolume E published w0)" for published w0
    using publish_leaves_directory [of E published w0] that by simp
  have cleared: "\<forall>q. within (Clean ?t) q \<longrightarrow> files (snd (NodeUnpublishVolume E request w)) q = None"
    and table: "mounts (snd (NodeUnpublishVolume E request w)) = mounts w0"
    if p: "fst (NodePublishVolume E published w0) = Inr ()
            \<and> TargetPath published = TargetPath request
            \<and> w = snd (NodePublishVolume E published w0)"
      and ok: "fst (NodeUnpublishVolume E request w) = Inr ()" for published w0
  proof -
    have dir: "files w (Clean ?t) = Some Dir" using published [OF p] .
    then show "\<forall>q. within (Clean ?t) q \<longrightarrow> files (snd (NodeUnpublishVolume E request w)) q = None"
      by (simp add: after [OF ok])
    let ?entry = "\<lparr>Device = ''tmpfs'', Path = ?t, Type = ''tmpfs'',
             Opts = [''noexec'', ''nosuid'', ''nodev'']\<rparr>"
    have m: "mounts w = mounts w0 @ [?entry]"
      using publish_mount_table [of E published w0] p by simp
    have free: "\<not> leadsToMount (?u w) (Clean ?t)"
      using RemoveAll_success(4) [OF removal [OF ok] assms(2)] dir by (simp add: Unmount_frame)
    have "fst (Unmount E ?t w) = None"
    proof (rule ccontr)
      assume "fst (Unmount E ?t w) \<noteq> None"
      then have "mounts (?u w) = mounts w0 @ [?entry]" by (auto simp: Unmount_mounts m)
      then have "leadsToMount (?u w) (Clean ?t)"
        by (simp add: leadsToMount_def within_self)
      with free show False by simp
    qed
    then have "mounts (?u w) = mounts w0"
      by (simp add: Unmount_mounts m removeLast_snoc)
    then show "mounts (snd (NodeUnpublishVolume E request w)) = mounts w0"
      by (simp add: world RemoveAll_frame)
  qed
  show ?thesis
  proof (intro conjI allI impI)
    show "fst (NodeUnpublishVolume E request w) =
           (case fst (RemoveAll E ?t (?u w)) of
              None \<Rightarrow> Inr ()
            | Some err \<Rightarrow> Inl (Status Internal (ErrorText err)))"
      by (rule first)
    show "trace (snd (NodeUnpublishVolume E request w)) =
           trace w @ [CallUnmount ?t, CallRemoveAll ?t]"
      by (rule log)
  next
    assume ok: "fst (NodeUnpublishVolume E request w) = Inr ()"
    show "files (snd (NodeUnpublishVolume E request w)) =
              (if files w (Clean ?t) = None then files w
               else (\<lambda>q. if within (Clean ?t) q then None else files w q))"
      by (rule after [OF ok])
    show "files (snd (NodeUnpublishVolume E request w)) (Clean ?t) = None"
      by (rule gone [OF ok])
    show "fst (NodeUnpublishVolume E request (snd (NodeUnpublishVolume E request w))) = Inr ()"
      by (rule again [OF ok])
    show "files (snd (NodeUnpublishVolume E request (snd (NodeUnpublishVolume E request w))))
              = files (snd (NodeUnpublishVolume E request w))"
      by (rule same [OF ok])
    assume "files w (Clean ?t) \<noteq> None"
    then show "\<not> leadsToMount (snd (NodeUnpublishVolume E request w)) (Clean ?t)"
      using unmounted [OF ok] by simp
  next
    fix published w0
    assume p: "fst (NodePublishVolume E published w0) = Inr ()
            \<and> TargetPath published = TargetPath request
            \<and> w = snd (NodePublishVolume E published w0)"
    show "files w (Clean ?t) = Some Dir" by (rule published [OF p])
    assume ok: "fst (NodeUnpublishVolume E request w) = Inr ()"
    show "mounts (snd (NodeUnpublishVolume E request w)) = mounts w0"
      by (rule table [OF p ok])
    fix q assume "within (Clean ?t) q"
    then show "files (snd (NodeUnpublishVolume E request w)) q = None"
      using cleared [OF p ok] by simp
  qed
qed

lemma endsWithDot_example: "\<not> endsWithDot ''/mnt/v1''"
  by code_simp

lemma example_published:
  "fst (NodePublishVolume (exampleEnv bad None) exampleRequest (exampleWorld Map.empty)) = Inr ()"
  "files (snd (NodePublishVolume (exampleEnv bad None) exampleRequest (exampleWorld Map.empty)))
     = [''/'' \<mapsto> Dir, ''/mnt'' \<mapsto> Dir, ''/mnt/v1'' \<mapsto> Dir,
        ''/mnt/v1/a'' \<mapsto> File ''x'', ''/mnt/v1/b'' \<mapsto> File ''y'']"
  "mounts (snd (NodePublishVolume (exampleEnv bad None) exampleRequest (exampleWorld Map.empty)))
     = [\<lparr>Device = ''tmpfs'', Path = ''/mnt/v1'', Type = ''tmpfs'',
         Opts = [''noexec'', ''nosuid'', ''nodev'']\<rparr>]"
  if "bad = [] \<or> bad = [CallUnmount ''/mnt/v1'']"
  using that
  by (auto simp: NodePublishVolume_def example_defs call_defs Clean_example ancestors_example
        Join_example)

theorem unpublish_is_idempotent_witness:
  "fst (NodePublishVolume (exampleEnv [] None) exampleRequest (exampleWorld Map.empty)) = Inr ()
   \<and> files (snd (NodePublishVolume (exampleEnv [] None) exampleRequest
         (exampleWorld Map.empty))) ''/mnt/v1'' = Some Dir
   \<and> fst (NodeUnpublishVolume (exampleEnv [] None) exampleUnpublish
        (snd (NodePublishVolume (exampleEnv [] None) exampleRequest (exampleWorld Map.empty))))
       = Inr ()
   \<and> files (snd (NodeUnpublishVolume (exampleEnv [] None) exampleUnpublish
        (snd (NodePublishVolume (exampleEnv [] None) exampleRequest (exampleWorld Map.empty)))))
       = [''/'' \<mapsto> Dir, ''/mnt'' \<mapsto> Dir]
   \<and> mounts (snd (NodeUnpublishVolume (exampleEnv [] None) exampleUnpublish
        (snd (NodePublishVolume (exampleEnv [] None) exampleRequest (exampleWorld Map.empty)))))
       = []
   \<and> fst (Unmount (exampleEnv [] None) ''/mnt/v1''
        (snd (NodeUnpublishVolume (exampleEnv [] None) exampleUnpublish
          (snd (NodePublishVolume (exampleEnv [] None) exampleRequest (exampleWorld Map.empty))))))
       = Some (ErrorString ''not mounted'')
   \<and> fst (NodeUnpublishVolume (exampleEnv [] None) exampleUnpublish
        (snd (NodeUnpublishVolume (exampleEnv [] None) exampleUnpublish
          (snd (NodePublishVolume (exampleEnv [] None) exampleRequest (exampleWorld Map.empty))))))
       = Inr ()
   \<and> fst (NodeUnpublishVolume (exampleEnv [CallUnmount ''/mnt/v1''] None) exampleUnpublish
        (snd (NodePublishVolume (exampleEnv [CallUnmount ''/mnt/v1''] None) exampleRequest
           (exampleWorld Map.empty))))
       = Inl (Status Internal (ErrorText (ErrorString ''device or resource busy'')))"
proof -
  let ?E = "exampleEnv [] None"
  let ?F = "exampleEnv [CallUnmount ''/mnt/v1''] None"
  let ?init = "exampleWorld Map.empty"
  let ?w = "snd (NodePublishVolume ?E exampleRequest ?init)"
  let ?v = "snd (NodePublishVolume ?F exampleRequest ?init)"
  let ?after = "snd (NodeUnpublishVolume ?E exampleUnpublish ?w)"
  have id: "VolumeId exampleUnpublish \<noteq> []" and tp: "TargetPath exampleUnpublish \<noteq> []"
    by (simp_all add: exampleUnpublish_def)
  have t: "TargetPath exampleUnpublish = ''/mnt/v1''" "TargetPath exampleRequest = ''/mnt/v1''"
    by (simp_all add: exampleUnpublish_def exampleRequest_def)
  note pub = example_published [of "[]", simplified]
  note pubF = example_published [of "[CallUnmount ''/mnt/v1'']", simplified]
  note c = unpublish_is_idempotent [OF id tp, of ?E ?w]
  have um: "snd (Unmount ?E ''/mnt/v1'' ?w) = ?w\<lparr>trace := trace ?w @ [CallUnmount ''/mnt/v1''], mounts := []\<rparr>"
    by (simp add: Unmount_def call_def example_fault pub Clean_example)
  have rm: "fst (RemoveAll ?E ''/mnt/v1'' (snd (Unmount ?E ''/mnt/v1'' ?w))) = None"
    by (simp add: um RemoveAll_def call_def example_fault pub Clean_example ancestors_example
          endsWithDot_example leadsToMount_def)
  have ok: "fst (NodeUnpublishVolume ?E exampleUnpublish ?w) = Inr ()"
    using c rm by (simp add: t)
  have p: "fst (NodePublishVolume ?E exampleRequest ?init) = Inr ()
            \<and> TargetPath exampleRequest = TargetPath exampleUnpublish
            \<and> ?w = snd (NodePublishVolume ?E exampleRequest ?init)"
    using pub(1) by (simp add: t)
  from c p have dir: "files ?w (Clean (TargetPath exampleUnpublish)) = Some Dir" by blast
  from c p ok have table: "mounts ?after = mounts ?init" by blast
  from c ok have after: "files ?after =
      (if files ?w (Clean (TargetPath exampleUnpublish)) = None then files ?w
       else (\<lambda>q. if within (Clean (TargetPath exampleUnpublish)) q then None else files ?w q))"
    and again: "fst (NodeUnpublishVolume ?E exampleUnpublish ?after) = Inr ()"
    by blast+
  have files2: "files ?after = [''/'' \<mapsto> Dir, ''/mnt'' \<mapsto> Dir]"
    by (rule ext) (simp add: after dir t Clean_example pub within_def)
  have um2: "fst (Unmount ?E ''/mnt/v1'' ?after) = Some (ErrorString ''not mounted'')"
    using table by (simp add: Unmount_def call_def example_fault exampleWorld_def)
  have umF: "snd (Unmount ?F ''/mnt/v1'' ?v) = ?v\<lparr>trace := trace ?v @ [CallUnmount ''/mnt/v1'']\<rparr>"
    by (simp add: Unmount_def call_def example_fault)
  have rmF: "fst (RemoveAll ?F ''/mnt/v1'' (snd (Unmount ?F ''/mnt/v1'' ?v)))
      = Some (ErrorString ''device or resource busy'')"
    by (simp add: umF RemoveAll_def call_def example_fault pubF Clean_example ancestors_example
          endsWithDot_example leadsToMount_def within_def)
  have busy: "fst (NodeUnpublishVolume ?F exampleUnpublish ?v)
      = Inl (Status Internal (ErrorText (ErrorString ''device or resource busy'')))"
    using unpublish_is_idempotent [OF id tp, of ?F ?v] rmF by (simp add: t)
  from pub(1) dir ok files2 table again um2 busy show ?thesis
    by (simp add: t Clean_example exampleWorld_def)
qed

end
